theory Spec2Isabelle
  imports Complex_Main "HOL-Library.Sublist"
begin

section \<open>JavaScript values\<close>

text \<open>
  The two scripts of the repository (\<^verbatim>\<open>static/app.js\<close> and \<^verbatim>\<open>static/map.js\<close>) work on
  JavaScript values, on the DOM and on the Leaflet mapping library.

  A JavaScript number is an IEEE double. It is modelled by the exact rational value it
  denotes, with the three non-finite doubles as constructors of their own. A decimal
  literal of the source is the double nearest to it; the literals of the source that are
  not integers are written out below with that exact value.

  A JavaScript string is a sequence of 16-bit code units. It is modelled by the bytes of
  its UTF-8 encoding, so every ASCII character is one \<^typ>\<open>char\<close>; a surrogate that is not
  half of a pair is written in the same three-byte form as any other code unit of its
  size, which is the byte \<open>0xED\<close> followed by a byte from \<open>0xA0\<close> on.

  The values are those a descriptor read from JSON can hold. An object is the list of
  its own properties.
\<close>

datatype jsnum = JNaN | JInfinity | JNegInfinity | JFinite rat

datatype jsval =
    JUndefined
  | JNull
  | JBool bool
  | JNum jsnum
  | JStr string
  | JArray "jsval list"
  | JObject "(string \<times> jsval) list"

text \<open>
  What a script can throw: a \<^verbatim>\<open>TypeError\<close> or a \<^verbatim>\<open>URIError\<close> of the language, or an
  \<^verbatim>\<open>Error\<close> of the mapping library. A computation that can throw returns the error on the
  left; \<open>and_then\<close> is the sequencing of two of them, and \<open>in_order\<close> that of a list.
\<close>

datatype js_error = TypeError | URIError | LibraryError

definition and_then :: "js_error + 'a \<Rightarrow> ('a \<Rightarrow> js_error + 'b) \<Rightarrow> js_error + 'b" where
  "and_then r f = (case r of Inl e \<Rightarrow> Inl e | Inr x \<Rightarrow> f x)"

fun in_order :: "(js_error + 'a) list \<Rightarrow> js_error + 'a list" where
  "in_order [] = Inr []"
| "in_order (r # rs) = and_then r (\<lambda>x. and_then (in_order rs) (\<lambda>xs. Inr (x # xs)))"

text \<open>
  \<^verbatim>\<open>Number::toString\<close> of a finite double prints the shortest decimal that reads back as
  the same double. That depends on the neighbouring doubles and is not part of the
  repository, so it is a parameter \<open>ns\<close> of every function that prints a number.
\<close>

fun num_String :: "(rat \<Rightarrow> string) \<Rightarrow> jsnum \<Rightarrow> string" where
  "num_String ns JNaN = ''NaN''"
| "num_String ns JInfinity = ''Infinity''"
| "num_String ns JNegInfinity = ''-Infinity''"
| "num_String ns (JFinite x) = ns x"

fun join :: "string \<Rightarrow> string list \<Rightarrow> string" where
  "join sep [] = []"
| "join sep [x] = x"
| "join sep (x # y # ys) = x @ sep @ join sep (y # ys)"

text \<open>
  \<^verbatim>\<open>String(v)\<close>. An array prints its elements in order, separated by commas, with
  \<^verbatim>\<open>undefined\<close> and \<^verbatim>\<open>null\<close> elements printed as the empty string. An object prints as
  \<^verbatim>\<open>[object Object]\<close> through the \<^verbatim>\<open>toString\<close> it inherits; when it has a property
  \<^verbatim>\<open>toString\<close> of its own, which for these values is never a function, neither that nor
  the inherited \<^verbatim>\<open>valueOf\<close> gives a primitive and the conversion throws a \<^verbatim>\<open>TypeError\<close>.
\<close>

fun js_String :: "(rat \<Rightarrow> string) \<Rightarrow> jsval \<Rightarrow> js_error + string" where
  "js_String ns JUndefined = Inr ''undefined''"
| "js_String ns JNull = Inr ''null''"
| "js_String ns (JBool b) = Inr (if b then ''true'' else ''false'')"
| "js_String ns (JNum n) = Inr (num_String ns n)"
| "js_String ns (JStr s) = Inr s"
| "js_String ns (JArray xs) =
     and_then
       (in_order (map (\<lambda>x. if x = JUndefined \<or> x = JNull then Inr [] else js_String ns x) xs))
       (\<lambda>ss. Inr (join '','' ss))"
| "js_String ns (JObject kvs) =
     (if ''toString'' \<in> fst ` set kvs then Inl TypeError else Inr ''[object Object]'')"

text \<open>\<^verbatim>\<open>typeof v\<close>.\<close>

fun typeof :: "jsval \<Rightarrow> string" where
  "typeof JUndefined = ''undefined''"
| "typeof JNull = ''object''"
| "typeof (JBool b) = ''boolean''"
| "typeof (JNum n) = ''number''"
| "typeof (JStr s) = ''string''"
| "typeof (JArray xs) = ''object''"
| "typeof (JObject kvs) = ''object''"

text \<open>
  Truthiness, as \<^verbatim>\<open>||\<close> and \<^verbatim>\<open>?:\<close> test it: \<^verbatim>\<open>undefined\<close>, \<^verbatim>\<open>null\<close>, \<^verbatim>\<open>false\<close>,
  \<^verbatim>\<open>NaN\<close>, zero and the empty string are falsy, every other value is truthy.
\<close>

fun truthy :: "jsval \<Rightarrow> bool" where
  "truthy JUndefined = False"
| "truthy JNull = False"
| "truthy (JBool b) = b"
| "truthy (JNum JNaN) = False"
| "truthy (JNum (JFinite x)) = (x \<noteq> 0)"
| "truthy (JNum n) = True"
| "truthy (JStr s) = (s \<noteq> [])"
| "truthy (JArray xs) = True"
| "truthy (JObject kvs) = True"

text \<open>\<^verbatim>\<open>a || b\<close>.\<close>

definition js_or :: "jsval \<Rightarrow> jsval \<Rightarrow> jsval" where
  "js_or a b = (if truthy a then a else b)"

section \<open>escapeHtml\<close>

text \<open>
  \<^verbatim>\<open>
  function escapeHtml(str) {
    return String(str).replace(/[&<>"']/g, (c) => ({
      "&": "&amp;", "<": "&lt;", ">": "&gt;", '"': "&quot;", "'": "&#039;",
    }[c]));
  }
  \<close>
  The object literal is an association list. A key that is missing from it reads as
  \<^verbatim>\<open>undefined\<close>, which \<^verbatim>\<open>replace\<close> inserts as the text \<^verbatim>\<open>undefined\<close>.
\<close>

definition entities :: "(char \<times> string) list" where
  "entities =
     [(CHR ''&'', ''&amp;''),
      (CHR ''<'', ''&lt;''),
      (CHR ''>'', ''&gt;''),
      (CHR 0x22, ''&quot;''),
      (CHR 0x27, ''&#039;'')]"

definition entity :: "char \<Rightarrow> string" where
  "entity c = (case map_of entities c of Some e \<Rightarrow> e | None \<Rightarrow> ''undefined'')"

text \<open>The character class \<^verbatim>\<open>[&<>"']\<close>.\<close>

definition reserved :: "char \<Rightarrow> bool" where
  "reserved c = (c \<in> {CHR ''&'', CHR ''<'', CHR ''>'', CHR 0x22, CHR 0x27})"

text \<open>A global \<^verbatim>\<open>replace\<close> on a one-character class rewrites the string character by character.\<close>

fun replace_reserved :: "string \<Rightarrow> string" where
  "replace_reserved [] = []"
| "replace_reserved (c # cs) = (if reserved c then entity c else [c]) @ replace_reserved cs"

definition escapeHtml :: "(rat \<Rightarrow> string) \<Rightarrow> jsval \<Rightarrow> js_error + string" where
  "escapeHtml ns str = and_then (js_String ns str) (\<lambda>s. Inr (replace_reserved s))"

subsection \<open>What the specification says of the escaping\<close>

text \<open>
  The specification's table of the five characters and their entities, every other
  character standing for itself.
\<close>

definition spec_escape_char :: "char \<Rightarrow> string" where
  "spec_escape_char c =
     (if c = CHR ''&'' then ''&amp;''
      else if c = CHR ''<'' then ''&lt;''
      else if c = CHR ''>'' then ''&gt;''
      else if c = CHR 0x22 then ''&quot;''
      else if c = CHR 0x27 then ''&#039;''
      else [c])"

definition spec_escape :: "string \<Rightarrow> string" where
  "spec_escape s = concat (map spec_escape_char s)"

text \<open>
  A text has no reserved character unescaped when it has no \<^verbatim>\<open><\<close>, \<^verbatim>\<open>>\<close>, double or
  single quote at all and each of its ampersands starts one of the five entities.
\<close>

definition starts_entity :: "string \<Rightarrow> bool" where
  "starts_entity cs =
     (take 4 cs = ''amp;'' \<or> take 3 cs = ''lt;'' \<or> take 3 cs = ''gt;''
      \<or> take 5 cs = ''quot;'' \<or> take 5 cs = ''#039;'')"

fun well_escaped :: "string \<Rightarrow> bool" where
  "well_escaped [] = True"
| "well_escaped (c # cs) =
     ((if c = CHR ''&'' then starts_entity cs else \<not> reserved c) \<and> well_escaped cs)"

text \<open>
  Reading the five entities back, as an HTML parser does for the text content of an
  element; any other ampersand is kept as it is.
\<close>

fun unescapeHtml :: "string \<Rightarrow> string" where
  "unescapeHtml [] = []"
| "unescapeHtml (c # cs) =
     (if c = CHR ''&'' \<and> take 4 cs = ''amp;'' then CHR ''&'' # unescapeHtml (drop 4 cs)
      else if c = CHR ''&'' \<and> take 3 cs = ''lt;'' then CHR ''<'' # unescapeHtml (drop 3 cs)
      else if c = CHR ''&'' \<and> take 3 cs = ''gt;'' then CHR ''>'' # unescapeHtml (drop 3 cs)
      else if c = CHR ''&'' \<and> take 5 cs = ''quot;'' then CHR 0x22 # unescapeHtml (drop 5 cs)
      else if c = CHR ''&'' \<and> take 5 cs = ''#039;'' then CHR 0x27 # unescapeHtml (drop 5 cs)
      else c # unescapeHtml cs)"

section \<open>The popup of a marker\<close>

text \<open>
  \<^verbatim>\<open>encodeURIComponent(v)\<close> throws a \<^verbatim>\<open>URIError\<close> when \<^verbatim>\<open>String(v)\<close> has a surrogate that
  is not half of a pair. Otherwise it keeps the letters, the digits and
  \<^verbatim>\<open>- _ . ! ~ * ' ( )\<close> and writes every other byte of the UTF-8 encoding as \<^verbatim>\<open>%XX\<close> with
  upper-case hexadecimal digits.
\<close>

fun lone_surrogate :: "string \<Rightarrow> bool" where
  "lone_surrogate (a # b # cs) =
     ((a = CHR 0xED \<and> (0xA0 :: nat) \<le> of_char b) \<or> lone_surrogate (b # cs))"
| "lone_surrogate cs = False"

definition uri_unreserved :: "char \<Rightarrow> bool" where
  "uri_unreserved c =
     (c \<in> set ''ABCDEFGHIJKLMNOPQRSTUVWXYZabcdefghijklmnopqrstuvwxyz0123456789-_.!~*()''
      \<or> c = CHR 0x27)"

definition hex_digit :: "nat \<Rightarrow> char" where
  "hex_digit n = ''0123456789ABCDEF'' ! (n mod 16)"

definition percent_encode :: "char \<Rightarrow> string" where
  "percent_encode c =
     (if uri_unreserved c then [c]
      else [CHR ''%'', hex_digit (of_char c div 16), hex_digit (of_char c mod 16)])"

definition encodeURIComponent :: "(rat \<Rightarrow> string) \<Rightarrow> jsval \<Rightarrow> js_error + string" where
  "encodeURIComponent ns v =
     and_then (js_String ns v)
       (\<lambda>s. if lone_surrogate s then Inl URIError else Inr (concat (map percent_encode s)))"

text \<open>
  \<^verbatim>\<open>s.replace(pat, rep)\<close> with a string pattern replaces the first occurrence of the pattern
  only (the replacement of the source, the empty string, has no \<^verbatim>\<open>$\<close> pattern).
\<close>

fun js_replace :: "string \<Rightarrow> string \<Rightarrow> string \<Rightarrow> string" where
  "js_replace pat rep [] = (if pat = [] then rep else [])"
| "js_replace pat rep (c # cs) =
     (if take (length pat) (c # cs) = pat then rep @ drop (length pat) (c # cs)
      else c # js_replace pat rep cs)"

text \<open>A marker descriptor; a property that is missing reads as \<^verbatim>\<open>undefined\<close>.\<close>

record descriptor =
  m_lat :: jsval
  m_lng :: jsval
  m_name :: jsval
  m_route :: jsval
  m_maps_url :: jsval
  m_phone_whatsapp :: jsval

text \<open>
  The template literal of \<^verbatim>\<open>initPublicMap\<close>, with its line breaks and indentation, in
  four parts: the three links and the text before them. The two conditional links are
  the inner template literals
  \<^verbatim>\<open>${m.maps_url ? `<a href="${m.maps_url}" ...</a>` : ""}\<close> and
  \<^verbatim>\<open>${m.phone_whatsapp ? `<a href="https://wa.me/${String(m.phone_whatsapp).replace("+","")}" ...</a>` : ""}\<close>.
  The substitutions are evaluated from left to right, and the first that throws ends the
  evaluation.
\<close>

definition maps_link :: "(rat \<Rightarrow> string) \<Rightarrow> descriptor \<Rightarrow> js_error + string" where
  \<open>maps_link ns m =
     (if truthy (m_maps_url m) then
        and_then (js_String ns (m_maps_url m)) (\<lambda>url. Inr (
          ''<a href="'' @ url @ ''" target="_blank"\<newline>''
          @ ''               style="font-size:12px;padding:6px 10px;border:1px solid #e2e8f0;border-radius:10px;text-decoration:none;">\<newline>''
          @ ''               Maps\<newline>''
          @ ''            </a>''))
      else Inr [])\<close>

definition whatsapp_link :: "(rat \<Rightarrow> string) \<Rightarrow> descriptor \<Rightarrow> js_error + string" where
  \<open>whatsapp_link ns m =
     (if truthy (m_phone_whatsapp m) then
        and_then (js_String ns (m_phone_whatsapp m)) (\<lambda>phone. Inr (
          ''<a href="https://wa.me/'' @ js_replace ''+'' [] phone
          @ ''" target="_blank"\<newline>''
          @ ''               style="font-size:12px;padding:6px 10px;border:1px solid #e2e8f0;border-radius:10px;text-decoration:none;">\<newline>''
          @ ''               WhatsApp\<newline>''
          @ ''            </a>''))
      else Inr [])\<close>

definition listings_link :: "(rat \<Rightarrow> string) \<Rightarrow> descriptor \<Rightarrow> js_error + string" where
  \<open>listings_link ns m =
     and_then (encodeURIComponent ns (js_or (m_route m) (JStr []))) (\<lambda>route. Inr (
       ''<a href="/listings?route='' @ route @ ''"\<newline>''
       @ ''               style="font-size:12px;padding:6px 10px;border:1px solid #e2e8f0;border-radius:10px;text-decoration:none;">\<newline>''
       @ ''               Ver lugares\<newline>''
       @ ''            </a>''))\<close>

definition popup_head :: "(rat \<Rightarrow> string) \<Rightarrow> descriptor \<Rightarrow> js_error + string" where
  \<open>popup_head ns m =
     and_then (escapeHtml ns (js_or (m_name m) (JStr ''Negocio''))) (\<lambda>name.
     and_then (escapeHtml ns (js_or (m_route m) (JStr []))) (\<lambda>route. Inr (
       ''\<newline>''
       @ ''        <div style="min-width:220px">\<newline>''
       @ ''          <div style="font-weight:700">''
       @ name @ ''</div>\<newline>''
       @ ''          <div style="font-size:12px;color:#64748b">''
       @ route @ ''</div>\<newline>''
       @ ''          <div style="margin-top:8px;display:flex;gap:6px;flex-wrap:wrap">\<newline>'')))\<close>

definition popup :: "(rat \<Rightarrow> string) \<Rightarrow> descriptor \<Rightarrow> js_error + string" where
  \<open>popup ns m =
     and_then (popup_head ns m) (\<lambda>head.
     and_then (listings_link ns m) (\<lambda>listings.
     and_then (maps_link ns m) (\<lambda>maps.
     and_then (whatsapp_link ns m) (\<lambda>whatsapp. Inr (
       head
       @ ''            '' @ listings @ ''\<newline>''
       @ ''            '' @ maps @ ''\<newline>''
       @ ''            '' @ whatsapp @ ''\<newline>''
       @ ''          </div>\<newline>''
       @ ''        </div>\<newline>''
       @ ''      '')))))\<close>

section \<open>The page and the mapping library\<close>

text \<open>
  An element of the document has a \<^verbatim>\<open>value\<close> and a \<^verbatim>\<open>classList\<close>; the document is a
  store of elements under their identifiers, which is what \<^verbatim>\<open>getElementById\<close> reads.
  An element reference held by a closure is the identifier it was found under.
\<close>

record element =
  el_value :: string
  el_classes :: "string list"

text \<open>
  The variables the closures of \<^verbatim>\<open>initPickerMap\<close> share: the two input elements, each
  \<^verbatim>\<open>null\<close> (\<open>None\<close>) or the element found. The two handlers it registers are closures
  over them: \<^verbatim>\<open>function (e) { setLatLng(e.latlng.lat, e.latlng.lng); }\<close> for a click on
  the map, and
  \<^verbatim>\<open>function (e) { const p = e.target.getLatLng(); setLatLng(p.lat, p.lng); }\<close> for the end
  of a drag of the marker.
\<close>

record picker =
  latInput :: "string option"
  lngInput :: "string option"

datatype handler = Click_handler picker | Dragend_handler picker

text \<open>
  The mapping library is an external collaborator. The model records, in order, the calls
  the scripts make on it and that returned. A position is the pair of values passed as
  \<^verbatim>\<open>[lat, lng]\<close>.
\<close>

type_synonym latlng = "jsval \<times> jsval"

datatype fit_target =
    LineBounds "jsval list"  \<comment> \<open>the bounds object \<^verbatim>\<open>getBounds()\<close> returned for the line drawn from this path\<close>
  | PointList "latlng list"  \<comment> \<open>an array of positions\<close>

datatype call =
    L_map string                           \<comment> \<open>\<^verbatim>\<open>L.map(mapId)\<close>\<close>
  | Map_setView latlng jsnum               \<comment> \<open>\<^verbatim>\<open>map.setView(center, zoom)\<close>\<close>
  | TileLayer_addTo string rat string      \<comment> \<open>\<^verbatim>\<open>L.tileLayer(url, {maxZoom, attribution}).addTo(map)\<close>\<close>
  | Marker_addTo latlng bool               \<comment> \<open>\<^verbatim>\<open>L.marker(pos, {draggable}).addTo(map)\<close>\<close>
  | Marker_bindPopup string                \<comment> \<open>\<^verbatim>\<open>.bindPopup(html)\<close> on the marker just added\<close>
  | Marker_setLatLng latlng                \<comment> \<open>\<^verbatim>\<open>marker.setLatLng(pos)\<close>\<close>
  | Map_panTo latlng                       \<comment> \<open>\<^verbatim>\<open>map.panTo(pos)\<close>\<close>
  | Map_on string handler                  \<comment> \<open>\<^verbatim>\<open>map.on(event, handler)\<close>\<close>
  | Marker_on string handler               \<comment> \<open>\<^verbatim>\<open>marker.on(event, handler)\<close>\<close>
  | Polyline_addTo "jsval list" rat rat    \<comment> \<open>\<^verbatim>\<open>L.polyline(path, {weight, opacity}).addTo(map)\<close>\<close>
  | Map_fitBounds fit_target "rat \<times> rat"   \<comment> \<open>\<^verbatim>\<open>map.fitBounds(bounds, {padding})\<close>\<close>

text \<open>
  Inside its \<^verbatim>\<open>try\<close> block the script depends on what the library answers for the line:
  each call may throw, and the bounds may be missing or invalid. A call that throws is
  taken to have had no effect.
\<close>

datatype polyline_outcome =
    Polyline_throws          \<comment> \<open>\<^verbatim>\<open>L.polyline(...).addTo(map)\<close> throws\<close>
  | GetBounds_throws         \<comment> \<open>the line is drawn; \<^verbatim>\<open>getBounds()\<close> or \<^verbatim>\<open>isValid()\<close> throws\<close>
  | Bounds_unusable          \<comment> \<open>\<^verbatim>\<open>lb\<close> is falsy or \<^verbatim>\<open>lb.isValid()\<close> is false\<close>
  | Bounds_valid_fit_throws  \<comment> \<open>the bounds are valid; \<^verbatim>\<open>fitBounds\<close> throws\<close>
  | Bounds_valid             \<comment> \<open>the bounds are valid and \<^verbatim>\<open>fitBounds\<close> returns\<close>

text \<open>A timer callback of the scripts: \<^verbatim>\<open>() => box.classList.add(cls)\<close>.\<close>

datatype action = ClassList_add string string

text \<open>
  The page. What the library does when called is its own affair and a part of the page:
  \<open>lib_throws\<close> says of each call outside a \<^verbatim>\<open>try\<close> block whether the library throws on
  it, and \<open>polyline_outcome\<close> what happens to a line inside the \<^verbatim>\<open>try\<close> block.
\<close>

record world =
  dom :: "string \<rightharpoonup> element"
  window_L :: bool  \<comment> \<open>whether \<^verbatim>\<open>window.L\<close> is truthy\<close>
  lib_throws :: "call \<Rightarrow> bool"
  polyline_outcome :: "jsval list \<Rightarrow> polyline_outcome"
  calls :: "call list"
  clock :: nat  \<comment> \<open>the time, in milliseconds\<close>
  timers :: "(nat \<times> action) list"  \<comment> \<open>the pending timers, each with the time it is due\<close>

text \<open>
  A statement that can throw gives the page it leaves and the error, if it threw. A call
  that throws leaves the page as it is; \<open>then_do\<close> runs the next statement when the one
  before returned.
\<close>

definition call :: "call \<Rightarrow> world \<Rightarrow> world \<times> js_error option" where
  "call c w =
     (if lib_throws w c then (w, Some LibraryError) else (w\<lparr>calls := calls w @ [c]\<rparr>, None))"

definition then_do ::
  "world \<times> js_error option \<Rightarrow> (world \<Rightarrow> world \<times> js_error option) \<Rightarrow> world \<times> js_error option" where
  "then_do r f = (case r of (w, None) \<Rightarrow> f w | (w, Some e) \<Rightarrow> (w, Some e))"

text \<open>
  Leaflet itself throws (\<^verbatim>\<open>Invalid LatLng object\<close>) when it is given a position with a
  \<^verbatim>\<open>NaN\<close> coordinate, and accepts every other pair of numbers.
\<close>

definition nan_position :: "latlng \<Rightarrow> bool" where
  "nan_position p = (fst p = JNum JNaN \<or> snd p = JNum JNaN)"

fun call_positions :: "call \<Rightarrow> latlng list" where
  "call_positions (Map_setView p z) = [p]"
| "call_positions (Marker_addTo p d) = [p]"
| "call_positions (Marker_setLatLng p) = [p]"
| "call_positions (Map_panTo p) = [p]"
| "call_positions (Map_fitBounds (PointList ps) pad) = ps"
| "call_positions c = []"

definition leaflet_throws :: "call \<Rightarrow> bool" where
  "leaflet_throws c = list_ex nan_position (call_positions c)"

text \<open>
  The view of the map is decided by the last of the calls that set it.
\<close>

fun sets_view :: "call \<Rightarrow> bool" where
  "sets_view (Map_setView c z) = True"
| "sets_view (Map_fitBounds b p) = True"
| "sets_view (Map_panTo c) = True"
| "sets_view _ = False"

definition final_view :: "call list \<Rightarrow> call option" where
  "final_view cs =
     (let vs = filter sets_view cs in if vs = [] then None else Some (last vs))"

fun places_marker :: "call \<Rightarrow> bool" where
  "places_marker (Marker_addTo p d) = True"
| "places_marker c = False"

section \<open>initPublicMap\<close>

text \<open>
  The literals \<^verbatim>\<open>-1.8312\<close>, \<^verbatim>\<open>-78.1834\<close> and \<^verbatim>\<open>0.85\<close> of the source, as the doubles they
  denote.
\<close>

definition default_startLat :: jsnum where
  "default_startLat = JFinite (- (2061747909410213 / 2 ^ 50))"

definition default_startLng :: jsnum where
  "default_startLng = JFinite (- (687708459192497 / 2 ^ 43))"

definition default_zoom :: jsnum where
  "default_zoom = JFinite 6"

definition line_opacity :: rat where
  "line_opacity = 7656119366529843 / 2 ^ 53"

text \<open>A destructuring default applies when the property is \<^verbatim>\<open>undefined\<close>.\<close>

definition or_default :: "'a \<Rightarrow> 'a option \<Rightarrow> 'a" where
  "or_default d v = (case v of None \<Rightarrow> d | Some x \<Rightarrow> x)"

record map_opts =
  mapId :: string
  startLat :: "jsnum option"
  startLng :: "jsnum option"
  zoom :: "jsnum option"

record public_opts = map_opts +
  markers :: "descriptor list option"
  path :: jsval

definition tile_layer :: call where
  \<open>tile_layer = TileLayer_addTo ''https://{s}.tile.openstreetmap.org/{z}/{x}/{y}.png'' 19 ''&copy; OpenStreetMap''\<close>

text \<open>
  \<^verbatim>\<open>
  try {
    const line = L.polyline(path, { weight: 4, opacity: 0.85 }).addTo(map);
    const lb = line.getBounds();
    if (lb && lb.isValid()) map.fitBounds(lb, { padding: [30, 30] });
  } catch (_) {}
  \<close>
  Whatever is thrown in it is caught, so the block always returns.
\<close>

definition draw_path :: "jsval list \<Rightarrow> world \<Rightarrow> world" where
  "draw_path ps w =
     (case polyline_outcome w ps of
        Polyline_throws \<Rightarrow> w
      | GetBounds_throws \<Rightarrow> w\<lparr>calls := calls w @ [Polyline_addTo ps 4 line_opacity]\<rparr>
      | Bounds_unusable \<Rightarrow> w\<lparr>calls := calls w @ [Polyline_addTo ps 4 line_opacity]\<rparr>
      | Bounds_valid_fit_throws \<Rightarrow> w\<lparr>calls := calls w @ [Polyline_addTo ps 4 line_opacity]\<rparr>
      | Bounds_valid \<Rightarrow>
          w\<lparr>calls := calls w @ [Polyline_addTo ps 4 line_opacity,
                                  Map_fitBounds (LineBounds ps) (30, 30)]\<rparr>)"

text \<open>
  The body of \<^verbatim>\<open>markers.forEach((m) => { ... })\<close>, on the map and the \<^verbatim>\<open>bounds\<close> array.
  The template literal is evaluated first, then
  \<^verbatim>\<open>L.marker([m.lat, m.lng]).addTo(map).bindPopup(popup)\<close>, then the push to \<^verbatim>\<open>bounds\<close>. None
  of it is in a \<^verbatim>\<open>try\<close> block: what is thrown leaves the callback, and \<^verbatim>\<open>forEach\<close> with it.
\<close>

definition place_marker ::
  "(rat \<Rightarrow> string) \<Rightarrow> descriptor \<Rightarrow> world \<times> latlng list
     \<Rightarrow> (world \<times> latlng list) \<times> js_error option" where
  "place_marker ns m s =
     (case s of (w, bounds) \<Rightarrow>
        if typeof (m_lat m) \<noteq> ''number'' \<or> typeof (m_lng m) \<noteq> ''number'' then ((w, bounds), None)
        else
          case popup ns m of
            Inl e \<Rightarrow> ((w, bounds), Some e)
          | Inr html \<Rightarrow>
              (case then_do (call (Marker_addTo (m_lat m, m_lng m) False) w)
                            (call (Marker_bindPopup html)) of
                 (w', Some e) \<Rightarrow> ((w', bounds), Some e)
               | (w', None) \<Rightarrow> ((w', bounds @ [(m_lat m, m_lng m)]), None)))"

fun forEach_markers ::
  "(rat \<Rightarrow> string) \<Rightarrow> descriptor list \<Rightarrow> world \<times> latlng list
     \<Rightarrow> (world \<times> latlng list) \<times> js_error option" where
  "forEach_markers ns [] s = (s, None)"
| "forEach_markers ns (m # ms) s =
     (case place_marker ns m s of
        (s', Some e) \<Rightarrow> (s', Some e)
      | (s', None) \<Rightarrow> forEach_markers ns ms s')"

text \<open>
  \<^verbatim>\<open>initPublicMap\<close> returns nothing; the model returns the page it leaves and the error, if
  it threw.
\<close>

definition initPublicMap ::
  "(rat \<Rightarrow> string) \<Rightarrow> public_opts \<Rightarrow> world \<Rightarrow> world \<times> js_error option" where
  "initPublicMap ns opts w =
     (let markers' = or_default [] (markers opts);
          path' = (if path opts = JUndefined then JArray [] else path opts);
          startLat' = or_default default_startLat (startLat opts);
          startLng' = or_default default_startLng (startLng opts);
          zoom' = or_default default_zoom (zoom opts)
      in if dom w (mapId opts) = None \<or> \<not> window_L w then (w, None)
         else
           then_do (call (L_map (mapId opts)) w) (\<lambda>w0.
           then_do (call (Map_setView (JNum startLat', JNum startLng') zoom') w0) (\<lambda>w1.
           then_do (call tile_layer w1) (\<lambda>w2.
             let w3 = (case path' of
                         JArray ps \<Rightarrow> if length ps \<ge> 2 then draw_path ps w2 else w2
                       | _ \<Rightarrow> w2)
             in case forEach_markers ns markers' (w3, []) of
                  ((w4, bounds), Some e) \<Rightarrow> (w4, Some e)
                | ((w4, bounds), None) \<Rightarrow>
                    then_do (if length bounds \<ge> 2
                             then call (Map_fitBounds (PointList bounds) (30, 30)) w4
                             else (w4, None)) (\<lambda>w5.
                      if length bounds = 1 then call (Map_setView (bounds ! 0) (JFinite 14)) w5
                      else (w5, None))))))"

text \<open>What the markers contribute, descriptor by descriptor.\<close>

definition valid_marker :: "descriptor \<Rightarrow> bool" where
  "valid_marker m = (typeof (m_lat m) = ''number'' \<and> typeof (m_lng m) = ''number'')"

definition both_numbers :: "descriptor \<Rightarrow> bool" where
  "both_numbers m = (case (m_lat m, m_lng m) of (JNum a, JNum b) \<Rightarrow> True | _ \<Rightarrow> False)"

definition positions :: "descriptor list \<Rightarrow> latlng list" where
  "positions ms = map (\<lambda>m. (m_lat m, m_lng m)) (filter valid_marker ms)"

definition marker_calls :: "(rat \<Rightarrow> string) \<Rightarrow> descriptor \<Rightarrow> call list" where
  "marker_calls ns m =
     [Marker_addTo (m_lat m, m_lng m) False, Marker_bindPopup (projr (popup ns m))]"

text \<open>The positions of the markers on the map, in the order they were added.\<close>

fun marker_added_at :: "call \<Rightarrow> latlng option" where
  "marker_added_at (Marker_addTo p d) = Some p"
| "marker_added_at c = None"

definition placed_markers :: "call list \<Rightarrow> latlng list" where
  "placed_markers cs = List.map_filter marker_added_at cs"


text \<open>
  A link as the popup shows it: the address, whether it opens in a new tab, and the
  label.
\<close>

definition anchor :: "string \<Rightarrow> bool \<Rightarrow> string \<Rightarrow> string" where
  \<open>anchor href new_tab label =
     ''<a href="'' @ href @ ''"'' @ (if new_tab then '' target="_blank"'' else []) @ ''\<newline>''
     @ ''               style="font-size:12px;padding:6px 10px;border:1px solid #e2e8f0;border-radius:10px;text-decoration:none;">\<newline>''
     @ ''               '' @ label @ ''\<newline>''
     @ ''            </a>''\<close>

text \<open>Reading a percent-encoded text back.\<close>

definition hex_value :: "char \<Rightarrow> nat" where
  "hex_value c = length (takeWhile (\<lambda>d. d \<noteq> c) ''0123456789ABCDEF'')"

fun percent_decode :: "string \<Rightarrow> string" where
  "percent_decode (c # a # b # cs) =
     (if c = CHR ''%'' then char_of (16 * hex_value a + hex_value b) # percent_decode cs
      else c # percent_decode (a # b # cs))"
| "percent_decode cs = cs"

text \<open>A text without its first \<^verbatim>\<open>+\<close>, wherever that is.\<close>

definition without_first_plus :: "string \<Rightarrow> string" where
  "without_first_plus s =
     takeWhile (\<lambda>c. c \<noteq> CHR ''+'') s @ drop 1 (dropWhile (\<lambda>c. c \<noteq> CHR ''+'') s)"

text \<open>
  The messaging link as the specification words it: the phone number with a leading
  \<^verbatim>\<open>+\<close> removed.
\<close>

fun strip_leading_plus :: "string \<Rightarrow> string" where
  "strip_leading_plus [] = []"
| "strip_leading_plus (c # cs) = (if c = CHR ''+'' then cs else c # cs)"

definition spec_whatsapp_link :: "(rat \<Rightarrow> string) \<Rightarrow> descriptor \<Rightarrow> js_error + string" where
  "spec_whatsapp_link ns m =
     (if truthy (m_phone_whatsapp m) then
        and_then (js_String ns (m_phone_whatsapp m)) (\<lambda>phone.
          Inr (anchor (''https://wa.me/'' @ strip_leading_plus phone) True ''WhatsApp''))
      else Inr [])"

section \<open>initPickerMap\<close>

text \<open>The decimal digits of a natural number.\<close>

fun decimal :: "nat \<Rightarrow> string" where
  "decimal n =
     (if n < 10 then [''0123456789'' ! n]
      else decimal (n div 10) @ [''0123456789'' ! (n mod 10)])"

text \<open>
  \<^verbatim>\<open>x.toFixed(f)\<close>, for \<open>f\<close> from 0 to 100. A number that is not finite prints as
  \<^verbatim>\<open>String\<close> prints it. Otherwise the sign is split off; from \<open>10\<^sup>2\<^sup>1\<close> on the magnitude
  prints as \<^verbatim>\<open>String\<close> prints it, and below, \<open>n\<close> is the integer nearest to the magnitude
  times \<open>10\<^sup>f\<close> (the larger one of two), printed with at least \<open>f + 1\<close> digits and a point
  before the last \<open>f\<close>.
\<close>

definition toFixed :: "(rat \<Rightarrow> string) \<Rightarrow> jsnum \<Rightarrow> nat \<Rightarrow> string" where
  "toFixed ns x f =
     (case x of
        JFinite r \<Rightarrow>
          (let s = (if r < 0 then ''-'' else []);
               a = \<bar>r\<bar>
           in if a \<ge> 10 ^ 21 then s @ ns a
              else
                let n = nat \<lfloor>a * 10 ^ f + 1 / 2\<rfloor>;
                    m = decimal n;
                    m' = (if length m \<le> f then replicate (f + 1 - length m) CHR ''0'' @ m else m);
                    k = length m'
                in s @ (if f \<noteq> 0 then take (k - f) m' @ ''.'' @ drop (k - f) m' else m))
      | _ \<Rightarrow> num_String ns x)"






record picker_opts = map_opts +
  latInputId :: string
  lngInputId :: string

definition getElementById :: "world \<Rightarrow> string \<Rightarrow> string option" where
  "getElementById w i = (case dom w i of None \<Rightarrow> None | Some e \<Rightarrow> Some i)"

definition set_value :: "string \<Rightarrow> string \<Rightarrow> world \<Rightarrow> world" where
  "set_value i v w =
     (case dom w i of None \<Rightarrow> w | Some e \<Rightarrow> w\<lparr>dom := (dom w)(i \<mapsto> e\<lparr>el_value := v\<rparr>)\<rparr>)"

text \<open>
  \<^verbatim>\<open>
  function setLatLng(lat, lng) {
    if (latInput) latInput.value = String(lat.toFixed(6));
    if (lngInput) lngInput.value = String(lng.toFixed(6));
    marker.setLatLng([lat, lng]);
    map.panTo([lat, lng]);
  }
  \<close>
  The fields are written before the library is called, so they stay written when a call
  throws.
\<close>

definition setLatLng ::
  "(rat \<Rightarrow> string) \<Rightarrow> picker \<Rightarrow> jsnum \<Rightarrow> jsnum \<Rightarrow> world \<Rightarrow> world \<times> js_error option" where
  "setLatLng ns p lat lng w =
     (let w1 = (case latInput p of Some i \<Rightarrow> set_value i (toFixed ns lat 6) w | None \<Rightarrow> w);
          w2 = (case lngInput p of Some i \<Rightarrow> set_value i (toFixed ns lng 6) w1 | None \<Rightarrow> w1)
      in then_do (call (Marker_setLatLng (JNum lat, JNum lng)) w2)
                 (call (Map_panTo (JNum lat, JNum lng))))"

text \<open>
  \<^verbatim>\<open>initPickerMap\<close> returns nothing; the model returns the page it leaves and the error, if
  it threw. The handlers it registered are in the record of the calls.
\<close>

definition initPickerMap ::
  "(rat \<Rightarrow> string) \<Rightarrow> picker_opts \<Rightarrow> world \<Rightarrow> world \<times> js_error option" where
  "initPickerMap ns opts w =
     (let startLat' = or_default default_startLat (startLat opts);
          startLng' = or_default default_startLng (startLng opts);
          zoom' = or_default default_zoom (zoom opts);
          latInput' = getElementById w (latInputId opts);
          lngInput' = getElementById w (lngInputId opts);
          mapEl = getElementById w (mapId opts);
          p = \<lparr>latInput = latInput', lngInput = lngInput'\<rparr>
      in if mapEl = None \<or> \<not> window_L w then (w, None)
         else
           then_do (call (L_map (mapId opts)) w) (\<lambda>w0.
           then_do (call (Map_setView (JNum startLat', JNum startLng') zoom') w0) (\<lambda>w1.
           then_do (call tile_layer w1) (\<lambda>w2.
           then_do (call (Marker_addTo (JNum startLat', JNum startLng') True) w2) (\<lambda>w3.
           then_do (setLatLng ns p startLat' startLng' w3) (\<lambda>w4.
           then_do (call (Map_on ''click'' (Click_handler p)) w4) (\<lambda>w5.
             call (Marker_on ''dragend'' (Dragend_handler p)) w5)))))))"













definition value_of :: "world \<Rightarrow> string \<Rightarrow> string option" where
  "value_of w i = map_option el_value (dom w i)"




section \<open>autoHide\<close>

text \<open>
  \<^verbatim>\<open>classList.contains\<close> and \<^verbatim>\<open>classList.add\<close>; adding a class that is there changes
  nothing.
\<close>

definition classList_contains :: "element \<Rightarrow> string \<Rightarrow> bool" where
  "classList_contains e c = (c \<in> set (el_classes e))"

definition classList_add :: "string \<Rightarrow> element \<Rightarrow> element" where
  "classList_add c e = (if c \<in> set (el_classes e) then e else e\<lparr>el_classes := el_classes e @ [c]\<rparr>)"

text \<open>\<^verbatim>\<open>setTimeout(callback, ms)\<close> adds a timer that is due \<open>ms\<close> milliseconds from now.\<close>

definition setTimeout :: "action \<Rightarrow> nat \<Rightarrow> world \<Rightarrow> world" where
  "setTimeout a ms w = w\<lparr>timers := timers w @ [(clock w + ms, a)]\<rparr>"

text \<open>
  \<^verbatim>\<open>
  function autoHide(id, ms) {
    const box = document.getElementById(id);
    if (!box) return;
    if (box.classList.contains("hidden")) return;
    setTimeout(() => { box.classList.add("hidden"); }, ms);
  }
  autoHide("successBox", 8000);
  \<close>
\<close>

definition autoHide :: "string \<Rightarrow> nat \<Rightarrow> world \<Rightarrow> world" where
  "autoHide i ms w =
     (case dom w i of
        None \<Rightarrow> w
      | Some box \<Rightarrow>
          if classList_contains box ''hidden'' then w
          else setTimeout (ClassList_add i ''hidden'') ms w)"

definition page_load :: "world \<Rightarrow> world" where
  "page_load w = autoHide ''successBox'' 8000 w"

text \<open>
  The browser's side of a timer: when the time reaches \<open>t\<close>, every timer due by then has
  run, in the order of the times they were due, and is gone; the others are pending.
\<close>

fun run_action :: "action \<Rightarrow> world \<Rightarrow> world" where
  "run_action (ClassList_add i c) w =
     (case dom w i of None \<Rightarrow> w | Some e \<Rightarrow> w\<lparr>dom := (dom w)(i \<mapsto> classList_add c e)\<rparr>)"

definition advance :: "nat \<Rightarrow> world \<Rightarrow> world" where
  "advance t w =
     (let ready = sort_key fst (filter (\<lambda>x. fst x \<le> t) (timers w));
          pending = filter (\<lambda>x. \<not> fst x \<le> t) (timers w)
      in (fold (\<lambda>x. run_action (snd x)) ready w)\<lparr>timers := pending, clock := max (clock w) t\<rparr>)"

definition hidden :: "world \<Rightarrow> string \<Rightarrow> bool" where
  "hidden w i = (case dom w i of None \<Rightarrow> False | Some e \<Rightarrow> classList_contains e ''hidden'')"

section \<open>Example inputs\<close>

text \<open>A printer of numbers that is right on the integers below \<open>10\<^sup>2\<^sup>1\<close>.\<close>

definition integer_ns :: "rat \<Rightarrow> string" where
  "integer_ns x = (if x < 0 then ''-'' else []) @ decimal (nat \<lfloor>\<bar>x\<bar>\<rfloor>)"

definition example_element :: element where
  "example_element = \<lparr>el_value = [], el_classes = []\<rparr>"

text \<open>A page with a map container, two input fields and a success box, on Leaflet.\<close>

definition example_page :: world where
  "example_page =
     \<lparr>dom = [''map'' \<mapsto> example_element, ''lat'' \<mapsto> example_element,
             ''lng'' \<mapsto> example_element, ''successBox'' \<mapsto> example_element],
      window_L = True,
      lib_throws = leaflet_throws,
      polyline_outcome = (\<lambda>ps. Bounds_valid),
      calls = [],
      clock = 0,
      timers = []\<rparr>"

definition example_public_opts :: "descriptor list \<Rightarrow> jsval \<Rightarrow> public_opts" where
  "example_public_opts ms p =
     \<lparr>mapId = ''map'', startLat = None, startLng = None, zoom = None,
      markers = Some ms, path = p\<rparr>"

definition example_picker_opts :: picker_opts where
  "example_picker_opts =
     \<lparr>mapId = ''map'', startLat = None, startLng = None, zoom = None,
      latInputId = ''lat'', lngInputId = ''lng''\<rparr>"

definition full_marker :: descriptor where
  "full_marker =
     \<lparr>m_lat = JNum (JFinite 1), m_lng = JNum (JFinite 2), m_name = JStr ''Cafe'', m_route = JStr ''a&b'',
      m_maps_url = JStr ''https://maps.example/x'', m_phone_whatsapp = JStr ''+593987654321''\<rparr>"

text \<open>A descriptor whose map URL and phone number carry markup, and one whose phone number has a \<^verbatim>\<open>+\<close> inside.\<close>

definition markup_marker :: descriptor where
  \<open>markup_marker =
     \<lparr>m_lat = JNum (JFinite 0), m_lng = JNum (JFinite 0), m_name = JStr ''A'', m_route = JStr ''r'',
      m_maps_url = JStr ''"><img src=x onerror=alert(1)>'',
      m_phone_whatsapp = JStr ''"><script>alert(2)</script>''\<rparr>\<close>

definition plus_inside_marker :: descriptor where
  "plus_inside_marker =
     \<lparr>m_lat = JNum (JFinite 0), m_lng = JNum (JFinite 0), m_name = JStr ''A'', m_route = JStr ''r'',
      m_maps_url = JUndefined, m_phone_whatsapp = JStr ''0991+234''\<rparr>"

definition example_marker :: "jsval \<Rightarrow> jsval \<Rightarrow> descriptor" where
  "example_marker la lo =
     \<lparr>m_lat = la, m_lng = lo, m_name = JStr ''Cafe <1>'', m_route = JStr ''a&b'',
      m_maps_url = JUndefined, m_phone_whatsapp = JUndefined\<rparr>"

section \<open>Properties of escapeHtml\<close>

lemma and_then_Inr [simp]: "and_then (Inr x) f = f x"
  by (simp add: and_then_def)

lemma and_then_Inl [simp]: "and_then (Inl e) f = Inl e"
  by (simp add: and_then_def)

lemma and_then_eq_Inr:
  "and_then r f = Inr y \<longleftrightarrow> (\<exists>x. r = Inr x \<and> f x = Inr y)"
  by (cases r) simp_all

lemma entity_eq_spec: "reserved c \<Longrightarrow> entity c = spec_escape_char c"
  by (auto simp: reserved_def entity_def entities_def spec_escape_char_def)

lemma spec_escape_char_other: "\<not> reserved c \<Longrightarrow> spec_escape_char c = [c]"
  by (simp add: reserved_def spec_escape_char_def)

lemma replace_reserved_spec: "replace_reserved s = spec_escape s"
  by (induction s) (simp_all add: spec_escape_def entity_eq_spec spec_escape_char_other)

lemma replace_reserved_append:
  "replace_reserved (xs @ ys) = replace_reserved xs @ replace_reserved ys"
  by (induction xs) simp_all

lemma replace_reserved_comma: "replace_reserved '','' = '',''"
  by (simp add: reserved_def)

lemma replace_reserved_join:
  "replace_reserved (join '','' ss) = join '','' (map replace_reserved ss)"
  by (induction "'',''" ss rule: join.induct)
     (simp_all add: replace_reserved_append reserved_def)

lemma in_order_map_and_then:
  "in_order (map (\<lambda>x. and_then (g x) (\<lambda>s. Inr (h s))) xs)
     = and_then (in_order (map g xs)) (\<lambda>ss. Inr (map h ss))"
proof (induction xs)
  case Nil
  show ?case by simp
next
  case (Cons x xs)
  show ?case
  proof (cases "g x")
    case (Inl e)
    then show ?thesis by simp
  next
    case (Inr s)
    then show ?thesis
      by (cases "in_order (map g xs)") (simp_all add: Cons.IH)
  qed
qed

lemma escapeHtml_array:
  "escapeHtml ns (JArray xs)
     = and_then (in_order (map (\<lambda>x. if x = JUndefined \<or> x = JNull then Inr [] else escapeHtml ns x) xs))
         (\<lambda>ss. Inr (join '','' ss))"
proof -
  let ?g = "\<lambda>x. if x = JUndefined \<or> x = JNull then Inr [] else js_String ns x"
  have "(\<lambda>x. if x = JUndefined \<or> x = JNull then Inr [] else escapeHtml ns x)
          = (\<lambda>x. and_then (?g x) (\<lambda>s. Inr (replace_reserved s)))"
    by (rule ext) (simp add: escapeHtml_def)
  then have "in_order (map (\<lambda>x. if x = JUndefined \<or> x = JNull then Inr [] else escapeHtml ns x) xs)
          = and_then (in_order (map ?g xs)) (\<lambda>ss. Inr (map replace_reserved ss))"
    by (simp only: in_order_map_and_then)
  then show ?thesis
    by (cases "in_order (map ?g xs)") (simp_all add: escapeHtml_def replace_reserved_join)
qed

lemma replace_reserved_no_markup:
  "set (replace_reserved s) \<inter> {CHR ''<'', CHR ''>'', CHR 0x22, CHR 0x27} = {}"
proof (induction s)
  case Nil
  show ?case by simp
next
  case (Cons c cs)
  have "set (if reserved c then entity c else [c])
          \<inter> {CHR ''<'', CHR ''>'', CHR 0x22, CHR 0x27} = {}"
    by (auto simp: reserved_def entity_def entities_def)
  with Cons show ?case by (simp add: Int_Un_distrib2)
qed

lemma replace_reserved_well_escaped: "well_escaped (replace_reserved s)"
proof (induction s)
  case Nil
  show ?case by simp
next
  case (Cons c cs)
  show ?case
  proof (cases "reserved c")
    case False
    with Cons show ?thesis by (auto simp: reserved_def)
  next
    case True
    then consider "c = CHR ''&''" | "c = CHR ''<''" | "c = CHR ''>''"
      | "c = CHR 0x22" | "c = CHR 0x27"
      by (auto simp: reserved_def)
    then show ?thesis
      using Cons
      by cases (simp_all add: reserved_def entity_def entities_def starts_entity_def)
  qed
qed

lemma unescapeHtml_replace_reserved: "unescapeHtml (replace_reserved s) = s"
proof (induction s)
  case Nil
  show ?case by simp
next
  case (Cons c cs)
  show ?case
  proof (cases "reserved c")
    case False
    with Cons show ?thesis by (simp add: reserved_def)
  next
    case True
    then consider "c = CHR ''&''" | "c = CHR ''<''" | "c = CHR ''>''"
      | "c = CHR 0x22" | "c = CHR 0x27"
      by (auto simp: reserved_def)
    then show ?thesis
      using Cons
      by cases (simp_all add: reserved_def entity_def entities_def)
  qed
qed

lemma escapeHtml_result:
  assumes "escapeHtml ns v = Inr t"
  shows "set t \<inter> {CHR ''<'', CHR ''>'', CHR 0x22, CHR 0x27} = {} \<and> well_escaped t
         \<and> (\<exists>s. js_String ns v = Inr s \<and> t = spec_escape s \<and> unescapeHtml t = s)"
proof -
  from assms obtain s where s: "js_String ns v = Inr s" and t: "t = replace_reserved s"
    by (auto simp: escapeHtml_def and_then_eq_Inr)
  show ?thesis
    unfolding t
    using s replace_reserved_no_markup replace_reserved_well_escaped
      unescapeHtml_replace_reserved replace_reserved_spec
    by simp
qed

text \<open>
  Claim C2. \<open>escapeHtml\<close> first takes the string representation of its argument: a string
  is itself, \<^verbatim>\<open>undefined\<close>, \<^verbatim>\<open>null\<close>, the booleans and the numbers print as the language
  prints them, an array prints its elements separated by commas, an object prints as
  \<^verbatim>\<open>[object Object]\<close> unless its own \<^verbatim>\<open>toString\<close> makes the conversion throw, in which
  case \<open>escapeHtml\<close> throws. It then replaces each of the five characters by its entity
  and no other character: the result is the specification's table applied to every
  character of the representation. Every result has no \<^verbatim>\<open><\<close>, \<^verbatim>\<open>>\<close> or quote, each of its
  ampersands starts one of the five entities, and reading the entities back gives the
  string representation again.
\<close>

theorem escapeHtml_replaces_reserved:
  "escapeHtml ns (JStr s) = Inr (spec_escape s)
   \<and> escapeHtml ns JUndefined = Inr ''undefined''
   \<and> escapeHtml ns JNull = Inr ''null''
   \<and> escapeHtml ns (JBool True) = Inr ''true''
   \<and> escapeHtml ns (JBool False) = Inr ''false''
   \<and> escapeHtml ns (JNum JNaN) = Inr ''NaN''
   \<and> escapeHtml ns (JNum JInfinity) = Inr ''Infinity''
   \<and> escapeHtml ns (JNum JNegInfinity) = Inr ''-Infinity''
   \<and> escapeHtml ns (JNum (JFinite x)) = Inr (spec_escape (ns x))
   \<and> escapeHtml ns (JArray xs)
       = and_then
           (in_order (map (\<lambda>x. if x = JUndefined \<or> x = JNull then Inr [] else escapeHtml ns x) xs))
           (\<lambda>ss. Inr (join '','' ss))
   \<and> escapeHtml ns (JObject kvs)
       = (if ''toString'' \<in> fst ` set kvs then Inl TypeError else Inr ''[object Object]'')
   \<and> (\<forall>t. escapeHtml ns v = Inr t \<longrightarrow>
         set t \<inter> {CHR ''<'', CHR ''>'', CHR 0x22, CHR 0x27} = {} \<and> well_escaped t
         \<and> (\<exists>s. js_String ns v = Inr s \<and> t = spec_escape s \<and> unescapeHtml t = s))"
proof -
  have prim: "escapeHtml ns (JStr s) = Inr (spec_escape s)"
    "escapeHtml ns (JNum (JFinite x)) = Inr (spec_escape (ns x))"
    by (simp_all add: escapeHtml_def replace_reserved_spec)
  have fixed: "escapeHtml ns JUndefined = Inr ''undefined''"
    "escapeHtml ns JNull = Inr ''null''"
    "escapeHtml ns (JBool True) = Inr ''true''"
    "escapeHtml ns (JBool False) = Inr ''false''"
    "escapeHtml ns (JNum JNaN) = Inr ''NaN''"
    "escapeHtml ns (JNum JInfinity) = Inr ''Infinity''"
    "escapeHtml ns (JNum JNegInfinity) = Inr ''-Infinity''"
    by (simp_all add: escapeHtml_def reserved_def)
  have obj: "escapeHtml ns (JObject kvs)
       = (if ''toString'' \<in> fst ` set kvs then Inl TypeError else Inr ''[object Object]'')"
    by (simp add: escapeHtml_def reserved_def)
  have res: "\<forall>t. escapeHtml ns v = Inr t \<longrightarrow>
         set t \<inter> {CHR ''<'', CHR ''>'', CHR 0x22, CHR 0x27} = {} \<and> well_escaped t
         \<and> (\<exists>s. js_String ns v = Inr s \<and> t = spec_escape s \<and> unescapeHtml t = s)"
    using escapeHtml_result by blast
  show ?thesis
    by (intro conjI; (rule prim fixed obj res escapeHtml_array))
qed

theorem escapeHtml_replaces_reserved_witness:
  "escapeHtml integer_ns (JStr ''<script>'') = Inr ''&lt;script&gt;''
   \<and> escapeHtml integer_ns
        (JArray [JStr ''a&b'', JNull, JBool True, JArray [JStr ''<'', JUndefined]])
       = Inr ''a&amp;b,,true,&lt;,''
   \<and> well_escaped ''&lt;script&gt;''
   \<and> unescapeHtml ''&lt;script&gt;'' = ''<script>''"
proof -
  note t = escapeHtml_replaces_reserved
  have a: "escapeHtml integer_ns (JStr ''<script>'') = Inr ''&lt;script&gt;''"
    using t [of integer_ns "''<script>''"] by (simp add: spec_escape_def spec_escape_char_def)
  have b: "escapeHtml integer_ns (JArray [JStr ''<'', JUndefined]) = Inr ''&lt;,''"
    using t [of integer_ns "''<''" _ "[JStr ''<'', JUndefined]"]
    by (simp add: spec_escape_def spec_escape_char_def)
  have c: "escapeHtml integer_ns
        (JArray [JStr ''a&b'', JNull, JBool True, JArray [JStr ''<'', JUndefined]])
       = Inr ''a&amp;b,,true,&lt;,''"
    using t [of integer_ns "''a&b''" _ "[JStr ''a&b'', JNull, JBool True, JArray [JStr ''<'', JUndefined]]"]
    by (simp add: b spec_escape_def spec_escape_char_def)
  have "well_escaped ''&lt;script&gt;''
        \<and> (\<exists>s. js_String integer_ns (JStr ''<script>'') = Inr s
                 \<and> unescapeHtml ''&lt;script&gt;'' = s)"
    using t [of integer_ns "''<script>''" 0 "[]" "[]" "JStr ''<script>''"] a by blast
  then have d: "well_escaped ''&lt;script&gt;'' \<and> unescapeHtml ''&lt;script&gt;'' = ''<script>''"
    by simp
  from a c d show ?thesis by simp
qed

section \<open>The links of the popup\<close>

lemma js_replace_plus: "js_replace ''+'' [] s = without_first_plus s"
  by (induction s) (simp_all add: without_first_plus_def)

lemma hex_digit_range: "hex_digit n \<in> set ''0123456789ABCDEF''"
  unfolding hex_digit_def by (rule nth_mem) simp

lemma hex_value_digit: "k < 16 \<Longrightarrow> hex_value (''0123456789ABCDEF'' ! k) = k"
proof -
  assume "k < 16"
  then have "k = 0 \<or> k = 1 \<or> k = 2 \<or> k = 3 \<or> k = 4 \<or> k = 5 \<or> k = 6 \<or> k = 7 \<or> k = 8
      \<or> k = 9 \<or> k = 10 \<or> k = 11 \<or> k = 12 \<or> k = 13 \<or> k = 14 \<or> k = 15"
    by arith
  then show ?thesis by (elim disjE) (simp_all add: hex_value_def)
qed

lemma hex_value_hex_digit: "hex_value (hex_digit n) = n mod 16"
  by (simp add: hex_digit_def hex_value_digit)

lemma of_char_lt_256: "(of_char c :: nat) < 256"
  by (metis of_char_mod_256 mod_less_divisor zero_less_numeral)

lemma percent_decode_encode_char:
  "\<not> uri_unreserved c \<Longrightarrow>
   char_of (16 * hex_value (hex_digit (of_char c div 16)) + hex_value (hex_digit (of_char c mod 16))) = c"
proof -
  have "(of_char c :: nat) div 16 < 16"
    by (rule less_mult_imp_div_less) (use of_char_lt_256 [of c] in simp)
  then have "16 * hex_value (hex_digit (of_char c div 16)) + hex_value (hex_digit (of_char c mod 16))
               = (of_char c :: nat)"
    by (simp add: hex_value_hex_digit)
  then show ?thesis by simp
qed

lemma unreserved_not_percent: "uri_unreserved c \<Longrightarrow> c \<noteq> CHR ''%''"
  by (auto simp: uri_unreserved_def)

lemma percent_decode_plain:
  "c \<noteq> CHR ''%'' \<Longrightarrow> percent_decode (c # cs) = c # percent_decode cs"
  by (cases cs rule: percent_decode.cases) (auto split: list.splits)

lemma percent_decode_encode: "percent_decode (concat (map percent_encode s)) = s"
proof (induction s)
  case Nil
  show ?case by simp
next
  case (Cons c cs)
  show ?case
  proof (cases "uri_unreserved c")
    case True
    then show ?thesis
      using Cons by (simp add: percent_encode_def percent_decode_plain unreserved_not_percent)
  next
    case False
    then show ?thesis
      using Cons percent_decode_encode_char [OF False] by (simp add: percent_encode_def)
  qed
qed

lemma percent_encode_safe:
  "set (percent_encode c) \<inter> {CHR 0x22, CHR ''<'', CHR ''>'', CHR ''&'', CHR '' ''} = {}"
proof (cases "uri_unreserved c")
  case True
  then show ?thesis by (auto simp: percent_encode_def uri_unreserved_def)
next
  case False
  have "hex_digit n \<notin> {CHR 0x22, CHR ''<'', CHR ''>'', CHR ''&'', CHR '' ''}" for n
    using hex_digit_range [of n] by auto
  with False show ?thesis by (simp add: percent_encode_def)
qed

lemma concat_percent_encode_safe:
  "set (concat (map percent_encode s))
     \<inter> {CHR 0x22, CHR ''<'', CHR ''>'', CHR ''&'', CHR '' ''} = {}"
proof (induction s)
  case Nil
  show ?case by simp
next
  case (Cons c cs)
  with percent_encode_safe [of c] show ?case by (simp add: Int_Un_distrib2)
qed

lemma encodeURIComponent_Inr:
  "encodeURIComponent ns v = Inr enc \<longleftrightarrow>
     (\<exists>s. js_String ns v = Inr s \<and> \<not> lone_surrogate s \<and> enc = concat (map percent_encode s))"
  by (auto simp: encodeURIComponent_def and_then_eq_Inr)

lemma listings_link_Inr:
  "listings_link ns m = Inr l \<longleftrightarrow>
     (\<exists>enc. encodeURIComponent ns (js_or (m_route m) (JStr [])) = Inr enc
            \<and> l = anchor (''/listings?route='' @ enc) False ''Ver lugares'')"
  by (auto simp: listings_link_def and_then_eq_Inr anchor_def)

lemma maps_link_Inr:
  "maps_link ns m = Inr l \<longleftrightarrow>
     (if truthy (m_maps_url m)
      then \<exists>u. js_String ns (m_maps_url m) = Inr u \<and> l = anchor u True ''Maps''
      else l = [])"
  by (auto simp: maps_link_def and_then_eq_Inr anchor_def)

lemma whatsapp_link_Inr:
  "whatsapp_link ns m = Inr l \<longleftrightarrow>
     (if truthy (m_phone_whatsapp m)
      then \<exists>p. js_String ns (m_phone_whatsapp m) = Inr p
               \<and> l = anchor (''https://wa.me/'' @ without_first_plus p) True ''WhatsApp''
      else l = [])"
  by (auto simp: whatsapp_link_def and_then_eq_Inr anchor_def js_replace_plus)

lemma popup_Inr:
  "popup ns m = Inr html \<longleftrightarrow>
     (\<exists>head l u p. popup_head ns m = Inr head \<and> listings_link ns m = Inr l
        \<and> maps_link ns m = Inr u \<and> whatsapp_link ns m = Inr p
        \<and> html = head @ ''            '' @ l @ ''\<newline>            '' @ u @ ''\<newline>            '' @ p
                  @ ''\<newline>          </div>\<newline>        </div>\<newline>      '')"
  by (auto simp: popup_def and_then_eq_Inr)

lemma popup_layout:
  assumes "popup ns m = Inr html"
  shows "\<exists>head rtext enc.
           popup_head ns m = Inr head
           \<and> js_String ns (js_or (m_route m) (JStr [])) = Inr rtext
           \<and> encodeURIComponent ns (js_or (m_route m) (JStr [])) = Inr enc
           \<and> percent_decode enc = rtext
           \<and> set enc \<inter> {CHR 0x22, CHR ''<'', CHR ''>'', CHR ''&'', CHR '' ''} = {}
           \<and> (truthy (m_maps_url m) \<longrightarrow> \<not> isl (js_String ns (m_maps_url m)))
           \<and> (truthy (m_phone_whatsapp m) \<longrightarrow> \<not> isl (js_String ns (m_phone_whatsapp m)))
           \<and> html = head @ ''            ''
                @ anchor (''/listings?route='' @ enc) False ''Ver lugares''
                @ ''\<newline>            ''
                @ (if truthy (m_maps_url m)
                   then anchor (projr (js_String ns (m_maps_url m))) True ''Maps'' else [])
                @ ''\<newline>            ''
                @ (if truthy (m_phone_whatsapp m)
                   then anchor (''https://wa.me/''
                                @ without_first_plus (projr (js_String ns (m_phone_whatsapp m))))
                               True ''WhatsApp''
                   else [])
                @ ''\<newline>          </div>\<newline>        </div>\<newline>      ''"
proof -
  from assms obtain head l u p where h: "popup_head ns m = Inr head"
    and l: "listings_link ns m = Inr l" and u: "maps_link ns m = Inr u"
    and p: "whatsapp_link ns m = Inr p"
    and html: "html = head @ ''            '' @ l @ ''\<newline>            '' @ u @ ''\<newline>            '' @ p
                  @ ''\<newline>          </div>\<newline>        </div>\<newline>      ''"
    unfolding popup_Inr by blast
  from l obtain enc where enc: "encodeURIComponent ns (js_or (m_route m) (JStr [])) = Inr enc"
    and l': "l = anchor (''/listings?route='' @ enc) False ''Ver lugares''"
    unfolding listings_link_Inr by blast
  from enc obtain rtext where rtext: "js_String ns (js_or (m_route m) (JStr [])) = Inr rtext"
    and enc': "enc = concat (map percent_encode rtext)"
    unfolding encodeURIComponent_Inr by blast
  have dec: "percent_decode enc = rtext" by (simp add: enc' percent_decode_encode)
  have safe: "set enc \<inter> {CHR 0x22, CHR ''<'', CHR ''>'', CHR ''&'', CHR '' ''} = {}"
    unfolding enc' by (rule concat_percent_encode_safe)
  from u have u': "(truthy (m_maps_url m) \<longrightarrow> \<not> isl (js_String ns (m_maps_url m)))
      \<and> u = (if truthy (m_maps_url m)
             then anchor (projr (js_String ns (m_maps_url m))) True ''Maps'' else [])"
    unfolding maps_link_Inr by (auto split: if_splits)
  from p have p': "(truthy (m_phone_whatsapp m) \<longrightarrow> \<not> isl (js_String ns (m_phone_whatsapp m)))
      \<and> p = (if truthy (m_phone_whatsapp m)
             then anchor (''https://wa.me/''
                          @ without_first_plus (projr (js_String ns (m_phone_whatsapp m))))
                         True ''WhatsApp''
             else [])"
    unfolding whatsapp_link_Inr by (auto split: if_splits)
  show ?thesis
    using h rtext enc dec safe u' p' html l' by blast
qed


text \<open>
  Claim C1. The name and the route pass through \<open>escapeHtml\<close>, and the coordinates are not
  inserted at all; the map URL and the phone number are inserted as they are. For a
  descriptor whose map URL and phone number carry markup, the popup holds that markup
  unescaped, where \<open>escapeHtml\<close> would have turned it into entities.
\<close>

theorem descriptor_url_and_phone_not_escaped:
  \<open>\<not> isl (popup integer_ns markup_marker)
   \<and> sublist ''<a href=""><img src=x onerror=alert(1)>" target="_blank"''
        (projr (popup integer_ns markup_marker))
   \<and> sublist ''<a href="https://wa.me/"><script>alert(2)</script>" target="_blank"''
        (projr (popup integer_ns markup_marker))
   \<and> escapeHtml integer_ns (m_maps_url markup_marker)
       = Inr ''&quot;&gt;&lt;img src=x onerror=alert(1)&gt;''
   \<and> escapeHtml integer_ns (m_phone_whatsapp markup_marker)
       = Inr ''&quot;&gt;&lt;script&gt;alert(2)&lt;/script&gt;''\<close>
proof -
  have ev: "\<not> isl (popup integer_ns markup_marker)"
    by (simp add: popup_def popup_head_def listings_link_def maps_link_def whatsapp_link_def
        escapeHtml_def encodeURIComponent_def markup_marker_def js_or_def)
  then obtain html where h: "popup integer_ns markup_marker = Inr html"
    by (cases "popup integer_ns markup_marker") auto
  from popup_layout [OF h] obtain head rtext enc where
    html: \<open>html = head @ ''            ''
            @ anchor (''/listings?route='' @ enc) False ''Ver lugares''
            @ ''\<newline>            ''
            @ anchor ''"><img src=x onerror=alert(1)>'' True ''Maps''
            @ ''\<newline>            ''
            @ anchor (''https://wa.me/'' @ without_first_plus ''"><script>alert(2)</script>'')
                True ''WhatsApp''
            @ ''\<newline>          </div>\<newline>        </div>\<newline>      ''\<close>
    by (auto simp: markup_marker_def)
  have \<open>\<exists>ps ss. html = ps @ ''<a href=""><img src=x onerror=alert(1)>" target="_blank"'' @ ss\<close>
    unfolding html
    by (rule exI [of _ \<open>head @ ''            ''
            @ anchor (''/listings?route='' @ enc) False ''Ver lugares'' @ ''\<newline>            ''\<close>],
        rule exI) (simp add: anchor_def)
  then have a: \<open>sublist ''<a href=""><img src=x onerror=alert(1)>" target="_blank"'' html\<close>
    by (simp only: sublist_def)
  have \<open>\<exists>ps ss. html
           = ps @ ''<a href="https://wa.me/"><script>alert(2)</script>" target="_blank"'' @ ss\<close>
    unfolding html
    by (rule exI [of _ \<open>head @ ''            ''
            @ anchor (''/listings?route='' @ enc) False ''Ver lugares'' @ ''\<newline>            ''
            @ anchor ''"><img src=x onerror=alert(1)>'' True ''Maps'' @ ''\<newline>            ''\<close>],
        rule exI) (simp add: anchor_def without_first_plus_def)
  then have b: \<open>sublist ''<a href="https://wa.me/"><script>alert(2)</script>" target="_blank"'' html\<close>
    by (simp only: sublist_def)
  have c: \<open>escapeHtml integer_ns (m_maps_url markup_marker)
       = Inr ''&quot;&gt;&lt;img src=x onerror=alert(1)&gt;''\<close>
    by (simp add: escapeHtml_def markup_marker_def reserved_def entity_def entities_def)
  have d: \<open>escapeHtml integer_ns (m_phone_whatsapp markup_marker)
       = Inr ''&quot;&gt;&lt;script&gt;alert(2)&lt;/script&gt;''\<close>
    by (simp add: escapeHtml_def markup_marker_def reserved_def entity_def entities_def)
  from ev a b c d show ?thesis by (simp add: h)
qed

text \<open>
  Claim C7, as stated, fails on a phone number with a \<^verbatim>\<open>+\<close> that is not leading: the
  script removes it, the specification's link keeps it.
\<close>

theorem whatsapp_link_leading_plus_counterexample:
  "whatsapp_link integer_ns plus_inside_marker \<noteq> spec_whatsapp_link integer_ns plus_inside_marker"
  by (simp add: whatsapp_link_def spec_whatsapp_link_def plus_inside_marker_def anchor_def)

text \<open>
  Claim C7, amended. A popup that is generated is the text before the links followed by:
  the listings link, whose address is \<^verbatim>\<open>/listings?route=\<close> and the percent-encoded text of
  the route (it reads back as that text and has no quote, angle bracket, ampersand or
  space); the map link to the descriptor's URL when that URL is truthy, and nothing
  otherwise; the messaging link when the phone number is truthy, and nothing otherwise.
  The address of the messaging link is \<^verbatim>\<open>https://wa.me/\<close> followed by the phone number's
  text without its first \<^verbatim>\<open>+\<close>, wherever that is.
\<close>

theorem popup_links:
  assumes "popup ns m = Inr html"
  shows "\<exists>head rtext enc.
           popup_head ns m = Inr head
           \<and> js_String ns (js_or (m_route m) (JStr [])) = Inr rtext
           \<and> encodeURIComponent ns (js_or (m_route m) (JStr [])) = Inr enc
           \<and> percent_decode enc = rtext
           \<and> set enc \<inter> {CHR 0x22, CHR ''<'', CHR ''>'', CHR ''&'', CHR '' ''} = {}
           \<and> (truthy (m_maps_url m) \<longrightarrow> \<not> isl (js_String ns (m_maps_url m)))
           \<and> (truthy (m_phone_whatsapp m) \<longrightarrow> \<not> isl (js_String ns (m_phone_whatsapp m)))
           \<and> html = head @ ''            ''
                @ anchor (''/listings?route='' @ enc) False ''Ver lugares''
                @ ''\<newline>            ''
                @ (if truthy (m_maps_url m)
                   then anchor (projr (js_String ns (m_maps_url m))) True ''Maps'' else [])
                @ ''\<newline>            ''
                @ (if truthy (m_phone_whatsapp m)
                   then anchor (''https://wa.me/''
                                @ without_first_plus (projr (js_String ns (m_phone_whatsapp m))))
                               True ''WhatsApp''
                   else [])
                @ ''\<newline>          </div>\<newline>        </div>\<newline>      ''"
  using assms by (rule popup_layout)

lemma full_marker_popup: "\<not> isl (popup integer_ns full_marker)"
  by (simp add: popup_def popup_head_def listings_link_def maps_link_def whatsapp_link_def
      escapeHtml_def encodeURIComponent_def full_marker_def js_or_def)

theorem popup_links_witness:
  \<open>projr (popup integer_ns full_marker)
     = projr (popup_head integer_ns full_marker) @ ''            ''
       @ anchor ''/listings?route=a%26b'' False ''Ver lugares''
       @ ''\<newline>            ''
       @ anchor ''https://maps.example/x'' True ''Maps''
       @ ''\<newline>            ''
       @ anchor ''https://wa.me/593987654321'' True ''WhatsApp''
       @ ''\<newline>          </div>\<newline>        </div>\<newline>      ''
   \<and> projr (popup integer_ns (example_marker (JNum (JFinite 1)) (JNum (JFinite 2))))
     = projr (popup_head integer_ns (example_marker (JNum (JFinite 1)) (JNum (JFinite 2))))
       @ ''            ''
       @ anchor ''/listings?route=a%26b'' False ''Ver lugares''
       @ ''\<newline>            \<newline>            \<newline>          </div>\<newline>        </div>\<newline>      ''\<close>
proof -
  have enc: "encodeURIComponent integer_ns (js_or (JStr ''a&b'') (JStr [])) = Inr ''a%26b''"
    by (simp add: encodeURIComponent_def js_or_def percent_encode_def uri_unreserved_def
        hex_digit_def)
  have h: "popup integer_ns full_marker = Inr (projr (popup integer_ns full_marker))"
    using full_marker_popup by simp
  have "\<not> isl (popup integer_ns (example_marker (JNum (JFinite 1)) (JNum (JFinite 2))))"
    by (simp add: popup_def popup_head_def listings_link_def maps_link_def whatsapp_link_def
        escapeHtml_def encodeURIComponent_def example_marker_def js_or_def)
  then have h2: "popup integer_ns (example_marker (JNum (JFinite 1)) (JNum (JFinite 2)))
      = Inr (projr (popup integer_ns (example_marker (JNum (JFinite 1)) (JNum (JFinite 2)))))"
    by simp
  have a: "m_route full_marker = JStr ''a&b''" "m_maps_url full_marker = JStr ''https://maps.example/x''"
    "m_phone_whatsapp full_marker = JStr ''+593987654321''"
    by (simp_all add: full_marker_def)
  have b: "m_route (example_marker (JNum (JFinite 1)) (JNum (JFinite 2))) = JStr ''a&b''"
    "m_maps_url (example_marker (JNum (JFinite 1)) (JNum (JFinite 2))) = JUndefined"
    "m_phone_whatsapp (example_marker (JNum (JFinite 1)) (JNum (JFinite 2))) = JUndefined"
    by (simp_all add: example_marker_def)
  from popup_links [OF h] have one: \<open>projr (popup integer_ns full_marker)
     = projr (popup_head integer_ns full_marker) @ ''            ''
       @ anchor ''/listings?route=a%26b'' False ''Ver lugares''
       @ ''\<newline>            ''
       @ anchor ''https://maps.example/x'' True ''Maps''
       @ ''\<newline>            ''
       @ anchor ''https://wa.me/593987654321'' True ''WhatsApp''
       @ ''\<newline>          </div>\<newline>        </div>\<newline>      ''\<close>
    by (auto simp: a enc without_first_plus_def)
  from popup_links [OF h2] have two:
    \<open>projr (popup integer_ns (example_marker (JNum (JFinite 1)) (JNum (JFinite 2))))
     = projr (popup_head integer_ns (example_marker (JNum (JFinite 1)) (JNum (JFinite 2))))
       @ ''            ''
       @ anchor ''/listings?route=a%26b'' False ''Ver lugares''
       @ ''\<newline>            \<newline>            \<newline>          </div>\<newline>        </div>\<newline>      ''\<close>
    by (auto simp: b enc)
  from one two show ?thesis by simp
qed

section \<open>The library calls of initPublicMap\<close>

lemma then_do_None [simp]: "then_do (w, None) f = f w"
  by (simp add: then_do_def)

lemma then_do_Some [simp]: "then_do (w, Some e) f = (w, Some e)"
  by (simp add: then_do_def)

lemma call_returns: "\<not> lib_throws w c \<Longrightarrow> call c w = (w\<lparr>calls := calls w @ [c]\<rparr>, None)"
  by (simp add: call_def)

lemma call_throws: "lib_throws w c \<Longrightarrow> call c w = (w, Some LibraryError)"
  by (simp add: call_def)

lemma typeof_number: "typeof v = ''number'' \<longleftrightarrow> (\<exists>n. v = JNum n)"
  by (cases v) simp_all

lemma both_numbers_typeof: "both_numbers m = valid_marker m"
  by (cases "m_lat m"; cases "m_lng m") (simp_all add: both_numbers_def valid_marker_def)

lemma place_marker_skip: "\<not> valid_marker m \<Longrightarrow> place_marker ns m s = (s, None)"
  by (cases s) (auto simp: place_marker_def valid_marker_def)

lemma place_marker_returns:
  assumes "valid_marker m" and "popup ns m = Inr html"
    and "\<not> lib_throws w (Marker_addTo (m_lat m, m_lng m) False)"
    and "\<not> lib_throws w (Marker_bindPopup html)"
  shows "place_marker ns m (w, bounds)
           = ((w\<lparr>calls := calls w @ [Marker_addTo (m_lat m, m_lng m) False, Marker_bindPopup html]\<rparr>,
               bounds @ [(m_lat m, m_lng m)]), None)"
  using assms by (simp add: place_marker_def valid_marker_def call_def)

lemma place_marker_no_popup:
  "valid_marker m \<Longrightarrow> popup ns m = Inl e \<Longrightarrow> place_marker ns m (w, bounds) = ((w, bounds), Some e)"
  by (simp add: place_marker_def valid_marker_def)

lemma place_marker_no_marker:
  "valid_marker m \<Longrightarrow> popup ns m = Inr html \<Longrightarrow> lib_throws w (Marker_addTo (m_lat m, m_lng m) False)
   \<Longrightarrow> place_marker ns m (w, bounds) = ((w, bounds), Some LibraryError)"
  by (simp add: place_marker_def valid_marker_def call_def)

lemma place_marker_None:
  assumes "place_marker ns m (w, bounds) = ((w', bounds'), None)" and "valid_marker m"
  shows "w' = w\<lparr>calls := calls w @ marker_calls ns m\<rparr> \<and> bounds' = bounds @ [(m_lat m, m_lng m)]"
proof (cases "popup ns m")
  case (Inl e)
  with assms show ?thesis by (simp add: place_marker_no_popup)
next
  case (Inr html)
  with assms show ?thesis
    by (auto simp: place_marker_def valid_marker_def call_def marker_calls_def
        split: if_splits)
qed

lemma forEach_markers_None:
  "forEach_markers ns ms (w, bounds) = ((w', bounds'), None) \<Longrightarrow>
   w' = w\<lparr>calls := calls w @ concat (map (marker_calls ns) (filter valid_marker ms))\<rparr>
   \<and> bounds' = bounds @ positions ms"
proof (induction ms arbitrary: w bounds)
  case Nil
  then show ?case by (simp add: positions_def)
next
  case (Cons m ms)
  show ?case
  proof (cases "valid_marker m")
    case False
    with Cons show ?thesis by (simp add: place_marker_skip positions_def)
  next
    case True
    obtain w1 b1 r where pm: "place_marker ns m (w, bounds) = ((w1, b1), r)"
      by (cases "place_marker ns m (w, bounds)") auto
    with Cons.prems have r: "r = None" by (cases r) simp_all
    with pm True have 1: "w1 = w\<lparr>calls := calls w @ marker_calls ns m\<rparr>"
      "b1 = bounds @ [(m_lat m, m_lng m)]"
      using place_marker_None by blast+
    from Cons.prems pm r have "forEach_markers ns ms (w1, b1) = ((w', bounds'), None)" by simp
    from Cons.IH [OF this] show ?thesis using True by (simp add: 1 positions_def)
  qed
qed

lemma forEach_markers_skip:
  "\<not> valid_marker m \<Longrightarrow>
   forEach_markers ns (xs @ m # ys) s = forEach_markers ns (xs @ ys) s"
proof (induction xs arbitrary: s)
  case Nil
  then show ?case by (simp add: place_marker_skip)
next
  case (Cons x xs)
  then show ?case
    by (cases "place_marker ns x s") (auto split: option.splits)
qed

text \<open>
  Claim C3. A descriptor whose latitude or longitude is not of type number leaves the map
  and the bounds array as they are, and \<open>initPublicMap\<close> on a list of descriptors that
  holds it anywhere gives the same page as on the list without it: it adds no marker and
  no bounds entry, and the descriptors before and after it are processed as they would be
  without it.
\<close>

theorem non_numeric_marker_skipped:
  assumes "typeof (m_lat m) \<noteq> ''number'' \<or> typeof (m_lng m) \<noteq> ''number''"
  shows "place_marker ns m (w, bounds) = ((w, bounds), None)
       \<and> initPublicMap ns (opts\<lparr>markers := Some (xs @ m # ys)\<rparr>) w0
           = initPublicMap ns (opts\<lparr>markers := Some (xs @ ys)\<rparr>) w0"
proof -
  from assms have nv: "\<not> valid_marker m" by (auto simp: valid_marker_def)
  show ?thesis
    by (simp add: place_marker_skip [OF nv] forEach_markers_skip [OF nv] initPublicMap_def
        or_default_def)
qed

theorem non_numeric_marker_skipped_witness:
  "typeof (m_lat (example_marker (JStr ''1.5'') (JNum (JFinite 2)))) \<noteq> ''number''
   \<and> initPublicMap integer_ns
         (example_public_opts
            [full_marker, example_marker (JStr ''1.5'') (JNum (JFinite 2)), full_marker] JUndefined)
         example_page
       = initPublicMap integer_ns (example_public_opts [full_marker, full_marker] JUndefined)
           example_page"
  using non_numeric_marker_skipped
    [where m = "example_marker (JStr ''1.5'') (JNum (JFinite 2))" and ns = integer_ns
       and opts = "example_public_opts [] JUndefined" and xs = "[full_marker]"
       and ys = "[full_marker]" and ?w0.0 = example_page]
  by (simp add: example_marker_def example_public_opts_def)

lemma final_view_append_none:
  "filter sets_view ds = [] \<Longrightarrow> final_view (cs @ ds) = final_view cs"
  by (simp add: final_view_def)


lemma placed_markers_append:
  "placed_markers (cs @ ds) = placed_markers cs @ placed_markers ds"
  by (simp add: placed_markers_def List.map_filter_def)

lemma placed_markers_marker_calls:
  "placed_markers (concat (map (marker_calls ns) ms)) = map (\<lambda>m. (m_lat m, m_lng m)) ms"
  by (induction ms) (simp_all add: placed_markers_def List.map_filter_def marker_calls_def)

lemma placed_markers_draw_path: "placed_markers (calls (draw_path ps w)) = placed_markers (calls w)"
  by (cases "polyline_outcome w ps")
     (simp_all add: draw_path_def placed_markers_def List.map_filter_def)

text \<open>The page after the three calls that set the map up, and after the path.\<close>

lemma initPublicMap_returns:
  assumes "dom w (mapId opts) \<noteq> None" and "window_L w"
    and "snd (initPublicMap ns opts w) = None"
  defines "w2 \<equiv> w\<lparr>calls := calls w @
             [L_map (mapId opts),
              Map_setView (JNum (or_default default_startLat (startLat opts)),
                           JNum (or_default default_startLng (startLng opts)))
                          (or_default default_zoom (zoom opts)),
              tile_layer]\<rparr>"
  defines "w3 \<equiv> (case (if path opts = JUndefined then JArray [] else path opts) of
                   JArray ps \<Rightarrow> if length ps \<ge> 2 then draw_path ps w2 else w2
                 | _ \<Rightarrow> w2)"
  defines "ps \<equiv> positions (or_default [] (markers opts))"
  shows "calls (fst (initPublicMap ns opts w)) =
           calls w3
           @ concat (map (marker_calls ns) (filter valid_marker (or_default [] (markers opts))))
           @ (if 2 \<le> length ps then [Map_fitBounds (PointList ps) (30, 30)]
              else if length ps = 1 then [Map_setView (ps ! 0) (JFinite 14)]
              else [])"
proof -
  let ?c1 = "L_map (mapId opts)"
  let ?c2 = "Map_setView (JNum (or_default default_startLat (startLat opts)),
                           JNum (or_default default_startLng (startLng opts)))
                          (or_default default_zoom (zoom opts))"
  let ?ms = "or_default [] (markers opts)"
  from assms(1) obtain el where el: "dom w (mapId opts) = Some el" by auto
  have t1: "\<not> lib_throws w ?c1"
    using assms(1-3) by (auto simp: initPublicMap_def Let_def call_def)
  have t2: "\<not> lib_throws w ?c2"
    using assms(1-3) t1 by (auto simp: initPublicMap_def Let_def call_def)
  have t3: "\<not> lib_throws w tile_layer"
    using assms(1-3) t1 t2 by (auto simp: initPublicMap_def Let_def call_def)
  obtain w4 bounds r where fe: "forEach_markers ns ?ms (w3, []) = ((w4, bounds), r)"
    by (cases "forEach_markers ns ?ms (w3, [])") auto
  have unfold: "initPublicMap ns opts w =
      (case forEach_markers ns ?ms (w3, []) of
         ((w4, bounds), Some e) \<Rightarrow> (w4, Some e)
       | ((w4, bounds), None) \<Rightarrow>
           then_do (if length bounds \<ge> 2
                    then call (Map_fitBounds (PointList bounds) (30, 30)) w4
                    else (w4, None)) (\<lambda>w5.
             if length bounds = 1 then call (Map_setView (bounds ! 0) (JFinite 14)) w5
             else (w5, None)))"
    using el assms(2) t1 t2 t3
    by (cases "path opts") (simp_all add: initPublicMap_def Let_def call_def w2_def w3_def)
  have r: "r = None"
    using assms(3) fe by (cases r) (simp_all add: unfold)
  from forEach_markers_None [OF fe [unfolded r]]
  have w4: "w4 = w3\<lparr>calls := calls w3 @ concat (map (marker_calls ns) (filter valid_marker ?ms))\<rparr>"
    and b: "bounds = ps" by (simp_all add: ps_def)
  have lt: "lib_throws w4 = lib_throws w"
  proof -
    have "lib_throws w3 = lib_throws w2"
      by (auto simp: w3_def draw_path_def split: jsval.splits polyline_outcome.splits)
    then show ?thesis by (simp add: w4 w2_def)
  qed
  show ?thesis
  proof (cases "2 \<le> length ps")
    case True
    then have "\<not> lib_throws w4 (Map_fitBounds (PointList ps) (30, 30))"
      using assms(3) by (auto simp: unfold fe r b call_def)
    with True show ?thesis by (simp add: unfold fe r b call_def w4)
  next
    case False
    show ?thesis
    proof (cases "length ps = 1")
      case True
      then have "\<not> lib_throws w4 (Map_setView (ps ! 0) (JFinite 14))"
        using assms(3) by (auto simp: unfold fe r b call_def)
      with True show ?thesis by (simp add: unfold fe r b call_def w4)
    next
      case False
      with \<open>\<not> 2 \<le> length ps\<close> show ?thesis by (simp add: unfold fe r b w4)
    qed
  qed
qed

lemma example_marker_popup: "\<not> isl (popup integer_ns (example_marker la lo))"
  by (simp add: popup_def popup_head_def listings_link_def maps_link_def whatsapp_link_def
      escapeHtml_def encodeURIComponent_def example_marker_def js_or_def)

lemma full_marker_position:
  "m_lat full_marker = JNum (JFinite 1)" "m_lng full_marker = JNum (JFinite 2)"
  by (simp_all add: full_marker_def)

lemma example_marker_position:
  "m_lat (example_marker la lo) = la" "m_lng (example_marker la lo) = lo"
  by (simp_all add: example_marker_def)

lemmas example_run =
  initPublicMap_def example_public_opts_def example_page_def Let_def or_default_def call_def
  place_marker_def draw_path_def full_marker_position example_marker_position leaflet_throws_def
  nan_position_def tile_layer_def default_startLat_def default_startLng_def default_zoom_def
  placed_markers_def List.map_filter_def final_view_def



lemma example_returns:
  "snd (initPublicMap integer_ns (example_public_opts [full_marker] JUndefined) example_page) = None"
  "snd (initPublicMap integer_ns
     (example_public_opts [full_marker, example_marker (JNum (JFinite 3)) (JNum (JFinite 4))] JUndefined)
     example_page) = None"
  "snd (initPublicMap integer_ns
     (example_public_opts [example_marker JNull (JNum (JFinite 4))] JUndefined) example_page) = None"
  "snd (initPublicMap integer_ns
     (example_public_opts [full_marker, example_marker (JNum (JFinite 3)) (JNum (JFinite 4))]
        (JArray [JArray [JNum (JFinite 0), JNum (JFinite 0)], JArray [JNum (JFinite 5), JNum (JFinite 5)]]))
     example_page) = None"
proof -
  obtain h1 where h1: "popup integer_ns full_marker = Inr h1"
    using full_marker_popup by (cases "popup integer_ns full_marker") auto
  obtain h2 where h2: "popup integer_ns (example_marker (JNum (JFinite 3)) (JNum (JFinite 4))) = Inr h2"
    using example_marker_popup [of "JNum (JFinite 3)" "JNum (JFinite 4)"]
    by (cases "popup integer_ns (example_marker (JNum (JFinite 3)) (JNum (JFinite 4)))") auto
  show "snd (initPublicMap integer_ns (example_public_opts [full_marker] JUndefined) example_page) = None"
    by (simp add: example_run h1)
  show "snd (initPublicMap integer_ns
     (example_public_opts [full_marker, example_marker (JNum (JFinite 3)) (JNum (JFinite 4))] JUndefined)
     example_page) = None"
    by (simp add: example_run h1 h2)
  show "snd (initPublicMap integer_ns
     (example_public_opts [example_marker JNull (JNum (JFinite 4))] JUndefined) example_page) = None"
    by (simp add: example_run)
  show "snd (initPublicMap integer_ns
     (example_public_opts [full_marker, example_marker (JNum (JFinite 3)) (JNum (JFinite 4))]
        (JArray [JArray [JNum (JFinite 0), JNum (JFinite 0)], JArray [JNum (JFinite 5), JNum (JFinite 5)]]))
     example_page) = None"
    by (simp add: example_run h1 h2)
qed

lemma example_guard: "dom example_page (mapId (example_public_opts ms p)) \<noteq> None" "window_L example_page"
  by (simp_all add: example_page_def example_public_opts_def)





text \<open>
  Claim C9, as stated, fails at \<^verbatim>\<open>NaN\<close>: on Leaflet a descriptor with a \<^verbatim>\<open>NaN\<close> latitude
  passes the \<^verbatim>\<open>typeof\<close> test, the marker call throws, and the descriptor has added no
  marker and no bounds entry.
\<close>

theorem numeric_check_is_typeof_counterexample:
  "typeof (m_lat (example_marker (JNum JNaN) (JNum (JFinite 4)))) = ''number''
   \<and> typeof (m_lng (example_marker (JNum JNaN) (JNum (JFinite 4)))) = ''number''
   \<and> place_marker integer_ns (example_marker (JNum JNaN) (JNum (JFinite 4))) (example_page, [])
       = ((example_page, []), Some LibraryError)"
proof -
  obtain h2 where h2: "popup integer_ns (example_marker (JNum JNaN) (JNum (JFinite 4))) = Inr h2"
    using example_marker_popup [of "JNum JNaN" "JNum (JFinite 4)"]
    by (cases "popup integer_ns (example_marker (JNum JNaN) (JNum (JFinite 4)))") auto
  show ?thesis
    by (simp add: example_run h2)
qed

text \<open>
  Claim C9, amended. The check is the \<^verbatim>\<open>typeof\<close> test and nothing more: a descriptor is
  skipped exactly when its latitude and longitude are not both numbers. For one that is
  not skipped, whichever the two numbers are, the script builds the popup and asks the
  library for a marker with it at that position. When the popup is built and the library
  takes both calls, the descriptor has added that marker and pushed its position to the
  bounds; when the popup or the marker call throws, it has added nothing and the error
  leaves \<^verbatim>\<open>forEach\<close>. So when \<open>initPublicMap\<close> returns, the markers it has put on the map
  are those of the descriptors with two numbers, in their order.
\<close>

theorem numeric_check_is_typeof:
  "both_numbers m = (typeof (m_lat m) = ''number'' \<and> typeof (m_lng m) = ''number'')
   \<and> (\<not> both_numbers m \<longrightarrow> place_marker ns m (w, bounds) = ((w, bounds), None))
   \<and> (both_numbers m \<and> popup ns m = Inr html
        \<and> \<not> lib_throws w (Marker_addTo (m_lat m, m_lng m) False)
        \<and> \<not> lib_throws w (Marker_bindPopup html) \<longrightarrow>
        place_marker ns m (w, bounds)
          = ((w\<lparr>calls := calls w @ [Marker_addTo (m_lat m, m_lng m) False, Marker_bindPopup html]\<rparr>,
              bounds @ [(m_lat m, m_lng m)]), None))
   \<and> (both_numbers m
        \<and> (isl (popup ns m) \<or> lib_throws w (Marker_addTo (m_lat m, m_lng m) False)) \<longrightarrow>
        fst (place_marker ns m (w, bounds)) = (w, bounds)
        \<and> snd (place_marker ns m (w, bounds)) \<noteq> None)
   \<and> (dom w0 (mapId opts) \<noteq> None \<and> window_L w0 \<and> snd (initPublicMap ns opts w0) = None \<longrightarrow>
        placed_markers (calls (fst (initPublicMap ns opts w0)))
          = placed_markers (calls w0)
            @ map (\<lambda>m. (m_lat m, m_lng m)) (filter both_numbers (or_default [] (markers opts))))"
proof -
  have a: "both_numbers m = (typeof (m_lat m) = ''number'' \<and> typeof (m_lng m) = ''number'')"
    by (simp add: both_numbers_typeof valid_marker_def)
  have b: "\<not> both_numbers m \<longrightarrow> place_marker ns m (w, bounds) = ((w, bounds), None)"
    by (simp add: both_numbers_typeof place_marker_skip)
  have c: "both_numbers m \<and> popup ns m = Inr html
        \<and> \<not> lib_throws w (Marker_addTo (m_lat m, m_lng m) False)
        \<and> \<not> lib_throws w (Marker_bindPopup html) \<longrightarrow>
        place_marker ns m (w, bounds)
          = ((w\<lparr>calls := calls w @ [Marker_addTo (m_lat m, m_lng m) False, Marker_bindPopup html]\<rparr>,
              bounds @ [(m_lat m, m_lng m)]), None)"
    by (simp add: both_numbers_typeof place_marker_returns)
  have d: "both_numbers m
        \<and> (isl (popup ns m) \<or> lib_throws w (Marker_addTo (m_lat m, m_lng m) False)) \<longrightarrow>
        fst (place_marker ns m (w, bounds)) = (w, bounds)
        \<and> snd (place_marker ns m (w, bounds)) \<noteq> None"
    by (cases "popup ns m")
       (auto simp: both_numbers_typeof place_marker_no_popup place_marker_no_marker)
  have e: "dom w0 (mapId opts) \<noteq> None \<and> window_L w0 \<and> snd (initPublicMap ns opts w0) = None \<longrightarrow>
        placed_markers (calls (fst (initPublicMap ns opts w0)))
          = placed_markers (calls w0)
            @ map (\<lambda>m. (m_lat m, m_lng m)) (filter both_numbers (or_default [] (markers opts)))"
  proof (intro impI, elim conjE)
    assume g: "dom w0 (mapId opts) \<noteq> None" "window_L w0" "snd (initPublicMap ns opts w0) = None"
    have bn: "both_numbers = valid_marker" by (rule ext) (rule both_numbers_typeof)
    show "placed_markers (calls (fst (initPublicMap ns opts w0)))
          = placed_markers (calls w0)
            @ map (\<lambda>m. (m_lat m, m_lng m)) (filter both_numbers (or_default [] (markers opts)))"
    proof -
      have start: "placed_markers (cs @ [L_map i, Map_setView p z, tile_layer]) = placed_markers cs"
        for cs i p z
        by (simp add: placed_markers_def List.map_filter_def tile_layer_def)
      have w3: "placed_markers (calls
          (case (if path opts = JUndefined then JArray [] else path opts) of
             JArray ps \<Rightarrow>
               if length ps \<ge> 2
               then draw_path ps (w0\<lparr>calls := calls w0 @
                      [L_map (mapId opts),
                       Map_setView (JNum (or_default default_startLat (startLat opts)),
                                    JNum (or_default default_startLng (startLng opts)))
                                   (or_default default_zoom (zoom opts)),
                       tile_layer]\<rparr>)
               else w0\<lparr>calls := calls w0 @
                      [L_map (mapId opts),
                       Map_setView (JNum (or_default default_startLat (startLat opts)),
                                    JNum (or_default default_startLng (startLng opts)))
                                   (or_default default_zoom (zoom opts)),
                       tile_layer]\<rparr>
           | _ \<Rightarrow> w0\<lparr>calls := calls w0 @
                      [L_map (mapId opts),
                       Map_setView (JNum (or_default default_startLat (startLat opts)),
                                    JNum (or_default default_startLng (startLng opts)))
                                   (or_default default_zoom (zoom opts)),
                       tile_layer]\<rparr>))
          = placed_markers (calls w0)"
        by (cases "path opts") (simp_all add: placed_markers_draw_path start)
      have fit: "placed_markers
          (if 2 \<le> length qs then [Map_fitBounds (PointList qs) (30, 30)]
           else if length qs = 1 then [Map_setView (qs ! 0) (JFinite 14)] else []) = []" for qs
        by (simp add: placed_markers_def List.map_filter_def)
      show ?thesis
        unfolding initPublicMap_returns [OF g] bn
        by (simp only: placed_markers_append placed_markers_marker_calls fit w3 append_Nil2)
    qed
  qed
  show ?thesis by (intro conjI; (rule a b c d e))
qed

theorem numeric_check_is_typeof_witness:
  "place_marker integer_ns (example_marker (JNum JInfinity) (JNum JNegInfinity)) (example_page, [])
     = ((example_page\<lparr>calls :=
           [Marker_addTo (JNum JInfinity, JNum JNegInfinity) False,
            Marker_bindPopup (projr (popup integer_ns (example_marker (JNum JInfinity) (JNum JNegInfinity))))]\<rparr>,
         [(JNum JInfinity, JNum JNegInfinity)]), None)
   \<and> placed_markers (calls (fst (initPublicMap integer_ns
         (example_public_opts [full_marker, example_marker (JNum (JFinite 3)) (JNum (JFinite 4))] JUndefined)
         example_page)))
     = [(JNum (JFinite 1), JNum (JFinite 2)), (JNum (JFinite 3), JNum (JFinite 4))]"
proof -
  let ?m = "example_marker (JNum JInfinity) (JNum JNegInfinity)"
  have h: "popup integer_ns ?m = Inr (projr (popup integer_ns ?m))"
    using example_marker_popup [of "JNum JInfinity" "JNum JNegInfinity"] by simp
  have t: "\<not> lib_throws example_page (Marker_addTo (m_lat ?m, m_lng ?m) False)"
    "\<not> lib_throws example_page (Marker_bindPopup (projr (popup integer_ns ?m)))"
    by (simp_all add: example_page_def leaflet_throws_def nan_position_def example_marker_def)
  have bn: "both_numbers ?m" by (simp add: both_numbers_def example_marker_def)
  have one: "place_marker integer_ns ?m (example_page, [])
     = ((example_page\<lparr>calls :=
           [Marker_addTo (JNum JInfinity, JNum JNegInfinity) False,
            Marker_bindPopup (projr (popup integer_ns ?m))]\<rparr>,
         [(JNum JInfinity, JNum JNegInfinity)]), None)"
    using numeric_check_is_typeof
      [of ?m integer_ns example_page "[]" "projr (popup integer_ns ?m)"] h t bn
    by (simp add: example_marker_def example_page_def)
  have two: "placed_markers (calls (fst (initPublicMap integer_ns
         (example_public_opts [full_marker, example_marker (JNum (JFinite 3)) (JNum (JFinite 4))] JUndefined)
         example_page)))
     = [(JNum (JFinite 1), JNum (JFinite 2)), (JNum (JFinite 3), JNum (JFinite 4))]"
    using numeric_check_is_typeof
      [of ?m integer_ns example_page "[]" "[]" example_page
          "example_public_opts [full_marker, example_marker (JNum (JFinite 3)) (JNum (JFinite 4))] JUndefined"]
      example_guard example_returns(2)
    by (simp add: example_public_opts_def or_default_def both_numbers_def full_marker_def
        example_marker_def example_page_def placed_markers_def List.map_filter_def)
  from one two show ?thesis by simp
qed

section \<open>The guard of the two initialisers\<close>

text \<open>
  Claim C5. When the container element is missing or \<^verbatim>\<open>window.L\<close> is falsy, both
  initialisers return, without an error, with the page as it was: no call on the library,
  no field written, no handler registered.
\<close>

theorem missing_prerequisite_no_op:
  "(dom w (mapId po) = None \<or> \<not> window_L w \<longrightarrow> initPickerMap ns po w = (w, None))
   \<and> (dom w (mapId qo) = None \<or> \<not> window_L w \<longrightarrow> initPublicMap ns qo w = (w, None))"
  by (auto simp: initPickerMap_def initPublicMap_def getElementById_def Let_def)

theorem missing_prerequisite_no_op_witness:
  "\<not> window_L (example_page\<lparr>window_L := False\<rparr>)
   \<and> initPickerMap integer_ns example_picker_opts (example_page\<lparr>window_L := False\<rparr>)
       = (example_page\<lparr>window_L := False\<rparr>, None)
   \<and> dom example_page ''nowhere'' = None
   \<and> initPublicMap integer_ns ((example_public_opts [full_marker] JUndefined)\<lparr>mapId := ''nowhere''\<rparr>)
         example_page
       = (example_page, None)"
  using missing_prerequisite_no_op
    [of "example_page\<lparr>window_L := False\<rparr>" example_picker_opts integer_ns
        "example_public_opts [full_marker] JUndefined"]
    missing_prerequisite_no_op
    [of example_page example_picker_opts integer_ns
        "(example_public_opts [full_marker] JUndefined)\<lparr>mapId := ''nowhere''\<rparr>"]
  by (simp add: example_page_def)

section \<open>The text of toFixed\<close>

declare decimal.simps [simp del]













section \<open>The picker and its fields\<close>






lemma value_of_set_value:
  "dom w i \<noteq> None \<Longrightarrow> value_of (set_value i v w) j = (if j = i then Some v else value_of w j)"
  by (auto simp: set_value_def value_of_def)

lemma dom_set_value: "dom (set_value i v w) j = None \<longleftrightarrow> dom w j = None"
  by (auto simp: set_value_def split: option.splits)

lemma calls_set_value: "calls (set_value i v w) = calls w"
  by (auto simp: set_value_def split: option.splits)




lemma markers_moved:
  "filter places_marker (cs @ [Marker_setLatLng q, Map_panTo q']) = filter places_marker cs"
  by simp

















text \<open>At a start latitude that is not a number the library refuses the view, and nothing is written.\<close>

lemma initPickerMap_nan_start:
  "initPickerMap integer_ns (example_picker_opts\<lparr>startLat := Some JNaN\<rparr>) example_page
     = (example_page\<lparr>calls := [L_map ''map'']\<rparr>, Some LibraryError)"
  by (simp add: initPickerMap_def Let_def getElementById_def call_def
      example_picker_opts_def example_page_def or_default_def leaflet_throws_def
      nan_position_def)

section \<open>The timer of autoHide\<close>

lemma page_load_idle:
  "dom w ''successBox'' = None \<or> hidden w ''successBox'' \<Longrightarrow> page_load w = w"
  by (auto simp: page_load_def autoHide_def hidden_def split: option.splits)

lemma page_load_schedules:
  "dom w ''successBox'' = Some box \<Longrightarrow> \<not> hidden w ''successBox'' \<Longrightarrow>
   page_load w = w\<lparr>timers := timers w @ [(clock w + 8000, ClassList_add ''successBox'' ''hidden'')]\<rparr>"
  by (simp add: page_load_def autoHide_def hidden_def setTimeout_def)

lemma advance_before:
  "t < d \<Longrightarrow> advance t (w\<lparr>timers := [(d, a)]\<rparr>) = w\<lparr>timers := [(d, a)], clock := max (clock w) t\<rparr>"
  by (simp add: advance_def)

lemma advance_after:
  "d \<le> t \<Longrightarrow> advance t (w\<lparr>timers := [(d, a)]\<rparr>) = (run_action a w)\<lparr>timers := [], clock := max (clock w) t\<rparr>"
  by (cases a) (simp add: advance_def split: option.splits)

lemma advance_no_timers: "timers w = [] \<Longrightarrow> dom (advance t w) = dom w"
  by (simp add: advance_def)

text \<open>
  Claim C8. When the success element is missing or has the class \<^verbatim>\<open>hidden\<close>, loading
  the page schedules nothing and changes nothing. Otherwise it adds exactly one timer,
  due 8000 milliseconds from now, that adds the class \<^verbatim>\<open>hidden\<close> to the element. With no
  other timer pending, the document is unchanged at every time before that, and from
  that time on the element has the class, added once, no timer is left and the passing
  of more time changes nothing.
\<close>

theorem autoHide_schedule:
  "(dom w ''successBox'' = None \<or> hidden w ''successBox'' \<longrightarrow> page_load w = w)
   \<and> (\<forall>box. dom w ''successBox'' = Some box \<and> \<not> hidden w ''successBox'' \<longrightarrow>
         page_load w
           = w\<lparr>timers := timers w @ [(clock w + 8000, ClassList_add ''successBox'' ''hidden'')]\<rparr>
         \<and> (timers w = [] \<longrightarrow>
              (\<forall>t. t < clock w + 8000 \<longrightarrow>
                 dom (advance t (page_load w)) = dom w
                 \<and> timers (advance t (page_load w))
                     = [(clock w + 8000, ClassList_add ''successBox'' ''hidden'')])
              \<and> (\<forall>t. clock w + 8000 \<le> t \<longrightarrow>
                 dom (advance t (page_load w))
                   = (dom w)(''successBox'' \<mapsto> box\<lparr>el_classes := el_classes box @ [''hidden'']\<rparr>)
                 \<and> hidden (advance t (page_load w)) ''successBox''
                 \<and> timers (advance t (page_load w)) = []
                 \<and> (\<forall>t'. dom (advance t' (advance t (page_load w)))
                            = dom (advance t (page_load w))))))"
proof (intro conjI allI impI)
  assume "dom w ''successBox'' = None \<or> hidden w ''successBox''"
  then show "page_load w = w" by (rule page_load_idle)
next
  fix box
  assume a: "dom w ''successBox'' = Some box \<and> \<not> hidden w ''successBox''"
  then show "page_load w
           = w\<lparr>timers := timers w @ [(clock w + 8000, ClassList_add ''successBox'' ''hidden'')]\<rparr>"
    by (simp add: page_load_schedules)
next
  fix box t
  assume a: "dom w ''successBox'' = Some box \<and> \<not> hidden w ''successBox''"
    and e: "timers w = []" and t: "t < clock w + 8000"
  from a e have pl: "page_load w = w\<lparr>timers := [(clock w + 8000, ClassList_add ''successBox'' ''hidden'')]\<rparr>"
    by (simp add: page_load_schedules)
  show "dom (advance t (page_load w)) = dom w"
    unfolding pl using t by (simp add: advance_before)
  show "timers (advance t (page_load w)) = [(clock w + 8000, ClassList_add ''successBox'' ''hidden'')]"
    unfolding pl using t by (simp add: advance_before)
next
  fix box t
  assume a: "dom w ''successBox'' = Some box \<and> \<not> hidden w ''successBox''"
    and e: "timers w = []" and t: "clock w + 8000 \<le> t"
  from a e have pl: "page_load w = w\<lparr>timers := [(clock w + 8000, ClassList_add ''successBox'' ''hidden'')]\<rparr>"
    by (simp add: page_load_schedules)
  from a have nh: "''hidden'' \<notin> set (el_classes box)"
    by (auto simp: hidden_def classList_contains_def)
  show d: "dom (advance t (page_load w))
          = (dom w)(''successBox'' \<mapsto> box\<lparr>el_classes := el_classes box @ [''hidden'']\<rparr>)"
    unfolding pl using t a nh by (simp add: advance_after classList_add_def)
  show "hidden (advance t (page_load w)) ''successBox''"
    by (simp add: hidden_def d classList_contains_def)
  show tm: "timers (advance t (page_load w)) = []"
    unfolding pl using t by (simp add: advance_after)
  fix t'
  show "dom (advance t' (advance t (page_load w))) = dom (advance t (page_load w))"
    using tm by (rule advance_no_timers)
qed

theorem autoHide_schedule_witness:
  "page_load example_page
     = example_page\<lparr>timers := [(8000, ClassList_add ''successBox'' ''hidden'')]\<rparr>
   \<and> \<not> hidden (advance 7999 (page_load example_page)) ''successBox''
   \<and> hidden (advance 8000 (page_load example_page)) ''successBox''
   \<and> timers (advance 8000 (page_load example_page)) = []"
proof -
  have a: "dom example_page ''successBox'' = Some example_element"
    "\<not> hidden example_page ''successBox''" "timers example_page = []" "clock example_page = 0"
    by (simp_all add: example_page_def hidden_def classList_contains_def example_element_def)
  from autoHide_schedule [of example_page] a
  have b: "page_load example_page
       = example_page\<lparr>timers := [(8000, ClassList_add ''successBox'' ''hidden'')]\<rparr>"
    and c: "dom (advance 7999 (page_load example_page)) = dom example_page"
    and d: "hidden (advance 8000 (page_load example_page)) ''successBox''"
      "timers (advance 8000 (page_load example_page)) = []"
    by auto
  from c a(1,2) have "\<not> hidden (advance 7999 (page_load example_page)) ''successBox''"
    by (simp add: hidden_def)
  with b d show ?thesis by simp
qed

end
